theory Spec2Isabelle
  imports Main
begin

section \<open>The add-model menu of code\_puppy\<close>

text \<open>
  The module \<^verbatim>\<open>code_puppy/command_line/add_model_menu.py\<close> shows a two-pane screen,
  asks up to five questions and merges one entry into a JSON file. Everything it does is
  an effect, so the embedding is a state-and-exception monad over an explicit state: the
  menu object, the process environment, the general configuration store, the file of extra
  models, the keys and lines the user will type, and a trace of the calls made to the
  outside, in order.
\<close>

subsection \<open>Python values\<close>

text \<open>
  What \<^verbatim>\<open>json.load\<close> returns and \<^verbatim>\<open>json.dump\<close> accepts. A dict is an association
  list in insertion order. Numbers with a fraction or an exponent are not represented.
\<close>

datatype json =
    JNull
  | JBool bool
  | JInt int
  | JStr string
  | JList "json list"
  | JDict "(string \<times> json) list"

text \<open>\<^verbatim>\<open>d[k] = v\<close> on a dict: an existing key keeps its place, a new key goes last.\<close>

fun dict_setitem :: "(string \<times> json) list \<Rightarrow> string \<Rightarrow> json \<Rightarrow> (string \<times> json) list" where
  "dict_setitem [] k v = [(k, v)]"
| "dict_setitem ((k', v') # d) k v =
     (if k' = k then (k', v) # d else (k', v') # dict_setitem d k v)"

text \<open>\<^verbatim>\<open>d.get(k)\<close>.\<close>

definition dict_get :: "(string \<times> json) list \<Rightarrow> string \<Rightarrow> json option" where
  "dict_get d k = map_of d k"

text \<open>The exceptions that occur; \<^verbatim>\<open>KeyboardInterrupt\<close> is the only one that is not an
  \<^verbatim>\<open>Exception\<close>.\<close>

datatype exc = KeyboardInterrupt | EOFError | ValueError | TypeError | IndexError | OSError

definition is_Exception :: "exc \<Rightarrow> bool" where
  "is_Exception e = (e \<noteq> KeyboardInterrupt)"

subsection \<open>The builtin \<^verbatim>\<open>int\<close> on a string\<close>

text \<open>
  A Python \<^verbatim>\<open>str\<close> is represented by its UTF-8 encoding, one \<open>char\<close> for each byte. The
  code points of a text: a lead byte announces one, two or three continuation bytes, and
  the code point they spell must need that many bytes, be no surrogate and be at most
  \<open>0x10FFFF\<close>. Bytes that are no UTF-8 spell no text.
\<close>

fun utf8_decode_from :: "nat \<Rightarrow> nat \<Rightarrow> nat \<Rightarrow> nat list \<Rightarrow> nat list option" where
  "utf8_decode_from n lo acc [] = (if n = 0 then Some [] else None)"
| "utf8_decode_from n lo acc (b # bs) =
     (if n = 0 then
        (if b < 0x80 then map_option (Cons b) (utf8_decode_from 0 0 0 bs)
         else if 0xC2 \<le> b \<and> b \<le> 0xDF then utf8_decode_from 1 0x80 (b - 0xC0) bs
         else if 0xE0 \<le> b \<and> b \<le> 0xEF then utf8_decode_from 2 0x800 (b - 0xE0) bs
         else if 0xF0 \<le> b \<and> b \<le> 0xF4 then utf8_decode_from 3 0x10000 (b - 0xF0) bs
         else None)
      else if 0x80 \<le> b \<and> b \<le> 0xBF then
        (if n = 1 then
           (if lo \<le> acc * 64 + (b - 0x80) \<and> acc * 64 + (b - 0x80) \<le> 0x10FFFF
               \<and> (acc * 64 + (b - 0x80) < 0xD800 \<or> 0xDFFF < acc * 64 + (b - 0x80))
            then map_option (Cons (acc * 64 + (b - 0x80))) (utf8_decode_from 0 0 0 bs)
            else None)
         else utf8_decode_from (n - 1) lo (acc * 64 + (b - 0x80)) bs)
      else None)"

definition code_points :: "string \<Rightarrow> nat list option" where
  "code_points s = utf8_decode_from 0 0 0 (map of_char s)"

text \<open>
  \<^verbatim>\<open>int(s)\<close> in base ten first rewrites the text to ASCII: a character beyond ASCII becomes
  a space when it is Unicode white space, its digit when it is a Unicode decimal digit, and
  a question mark otherwise. The decimal digits are those of Unicode 14.0, which Python
  3.11 carries; they come in runs of ten from a zero, and the list names the zeros.
\<close>

definition unicode_isspace :: "nat \<Rightarrow> bool" where
  "unicode_isspace cp =
     (cp \<in> set [0x85, 0xA0, 0x1680, 0x2028, 0x2029, 0x202F, 0x205F, 0x3000]
      \<or> (0x2000 \<le> cp \<and> cp \<le> 0x200A))"

definition decimal_zeros :: "nat list" where
  "decimal_zeros =
     [0x660, 0x6F0, 0x7C0, 0x966, 0x9E6, 0xA66, 0xAE6, 0xB66,
      0xBE6, 0xC66, 0xCE6, 0xD66, 0xDE6, 0xE50, 0xED0, 0xF20,
      0x1040, 0x1090, 0x17E0, 0x1810, 0x1946, 0x19D0, 0x1A80, 0x1A90,
      0x1B50, 0x1BB0, 0x1C40, 0x1C50, 0xA620, 0xA8D0, 0xA900, 0xA9D0,
      0xA9F0, 0xAA50, 0xABF0, 0xFF10, 0x104A0, 0x10D30, 0x11066, 0x110F0,
      0x11136, 0x111D0, 0x112F0, 0x11450, 0x114D0, 0x11650, 0x116C0, 0x11730,
      0x118E0, 0x11950, 0x11C50, 0x11D50, 0x11DA0, 0x16A60, 0x16AC0, 0x16B50,
      0x1D7CE, 0x1D7D8, 0x1D7E2, 0x1D7EC, 0x1D7F6, 0x1E140, 0x1E2F0, 0x1E950,
      0x1FBF0]"

definition unicode_decimal :: "nat \<Rightarrow> nat option" where
  "unicode_decimal cp =
     (case filter (\<lambda>z. z \<le> cp \<and> cp < z + 10) decimal_zeros of
        [] \<Rightarrow> None
      | z # _ \<Rightarrow> Some (cp - z))"

definition to_ascii :: "nat \<Rightarrow> char" where
  "to_ascii cp =
     (if cp < 128 then char_of cp
      else if unicode_isspace cp then CHR '' ''
      else case unicode_decimal cp of Some d \<Rightarrow> char_of (48 + d) | None \<Rightarrow> CHR ''?'')"

text \<open>
  Then, on the ASCII text: white space around the number is dropped, one sign may come
  first, and the digits may be grouped by single underscores. More digits than
  \<^verbatim>\<open>sys.get_int_max_str_digits()\<close> (4300 unless configured) are refused. None stands for
  \<^verbatim>\<open>ValueError\<close>.
\<close>

definition py_isspace :: "char \<Rightarrow> bool" where
  "py_isspace c = (c \<in> set [CHR 0x20, CHR 0x09, CHR 0x0A, CHR 0x0B, CHR 0x0C, CHR 0x0D])"

definition py_strip :: "string \<Rightarrow> string" where
  "py_strip s = rev (dropWhile py_isspace (rev (dropWhile py_isspace s)))"

definition is_digit :: "char \<Rightarrow> bool" where
  "is_digit c = (c \<in> set ''0123456789'')"

definition digit_value :: "char \<Rightarrow> nat" where
  "digit_value c = of_char c - 48"

fun digits_value :: "nat \<Rightarrow> string \<Rightarrow> nat option" where
  "digits_value acc [] = None"
| "digits_value acc [c] = (if is_digit c then Some (10 * acc + digit_value c) else None)"
| "digits_value acc (c # d # cs) =
     (if is_digit c then
        (if d = CHR ''_'' then digits_value (10 * acc + digit_value c) cs
         else digits_value (10 * acc + digit_value c) (d # cs))
      else None)"

definition int_max_str_digits :: nat where
  "int_max_str_digits = 4300"

definition py_nat :: "string \<Rightarrow> nat option" where
  "py_nat s = (if length (filter is_digit s) > int_max_str_digits then None
               else digits_value 0 s)"

definition ascii_int :: "string \<Rightarrow> int option" where
  "ascii_int s =
     (case py_strip s of
        [] \<Rightarrow> None
      | c # cs \<Rightarrow>
          if c = CHR ''-'' then map_option (\<lambda>n. - int n) (py_nat cs)
          else if c = CHR ''+'' then map_option int (py_nat cs)
          else map_option int (py_nat (c # cs)))"

definition py_int :: "string \<Rightarrow> int option" where
  "py_int s =
     (case code_points s of
        None \<Rightarrow> None
      | Some cps \<Rightarrow> ascii_int (map to_ascii cps))"

subsection \<open>The state\<close>

text \<open>Modelled from the spec: \<^verbatim>\<open>ProviderInfo\<close> of \<^verbatim>\<open>code_puppy.models_dev_parser\<close> is
  not in the sources; it has an id, a display name, the names of the environment variables
  it requires and an api tag, the four fields the menu gives it.\<close>

record ProviderInfo =
  provider_id :: string
  provider_name :: string
  provider_env :: "string list"
  provider_api :: string

text \<open>The fields of an \<^verbatim>\<open>AddModelMenu\<close> object. The texts of the two panes are lists of
  (style, text) pairs.\<close>

record AddModelMenu =
  providers :: "ProviderInfo list"
  current_provider :: "ProviderInfo option"
  view_mode :: string
  selected_provider_idx :: nat
  selected_model_idx :: nat
  result :: "string option"
  menu_control :: "(string \<times> string) list"
  preview_control :: "(string \<times> string) list"

text \<open>Modelled from the spec: \<^verbatim>\<open>EXTRA_MODELS_FILE\<close> of \<^verbatim>\<open>code_puppy.config\<close> is not in
  the sources; it is one fixed path. The file there is absent, present but not readable,
  readable but not JSON, or holding a JSON value.\<close>

datatype file_state = Missing | Unreadable | Unparsable | Holds json

text \<open>How writing the file can fail: creating the parent directories, opening the file
  for writing, or writing into the opened (and so already truncated) file.\<close>

datatype fs_fault = Mkdir_fails | Open_fails | Dump_fails

text \<open>A key of the display phase; no other key than Enter and Ctrl-C is bound.\<close>

datatype key = Key_enter | Key_ctrl_c | Key_other

text \<open>What a line prompt gets: a line, Ctrl-C (\<^verbatim>\<open>KeyboardInterrupt\<close>) or the end of the
  input (\<^verbatim>\<open>EOFError\<close>).\<close>

datatype answer = Line string | Interrupt | End_of_input

text \<open>The calls to the outside, as the trace records them.\<close>

datatype event =
    Set_awaiting_user_input bool
  | Stdout_write string
  | Stdout_flush
  | Emit_info string
  | Emit_warning string
  | Prompt string
  | Set_config_value string string
  | Environ_setitem string string
  | Mkdir_parents
  | Open_write
  | Json_dump json nat

record state =
  self :: AddModelMenu
  os_environ :: "string \<rightharpoonup> string"
  config_store :: "string \<rightharpoonup> string"
  extra_models_file :: file_state
  fs_fault :: "fs_fault option"
  key_events :: "key list"
  stdin :: "answer list"
  trace :: "event list"

subsection \<open>Statements, exceptions, try blocks\<close>

type_synonym 'a io = "state \<Rightarrow> (exc + 'a) \<times> state"

definition return :: "'a \<Rightarrow> 'a io" where
  "return v s = (Inr v, s)"

definition raise :: "exc \<Rightarrow> 'a io" where
  "raise e s = (Inl e, s)"

definition bind :: "'a io \<Rightarrow> ('a \<Rightarrow> 'b io) \<Rightarrow> 'b io" where
  "bind m f s = (case m s of (Inl e, s1) \<Rightarrow> (Inl e, s1) | (Inr v, s1) \<Rightarrow> f v s1)"

definition seq :: "unit io \<Rightarrow> 'b io \<Rightarrow> 'b io" where
  "seq m n = bind m (\<lambda>_. n)"

text \<open>\<^verbatim>\<open>try: body except <handled>: handler\<close>.\<close>

definition try_except :: "'a io \<Rightarrow> (exc \<Rightarrow> bool) \<Rightarrow> 'a io \<Rightarrow> 'a io" where
  "try_except body handled handler s =
     (case body s of
        (Inl e, s1) \<Rightarrow> if handled e then handler s1 else (Inl e, s1)
      | (Inr v, s1) \<Rightarrow> (Inr v, s1))"

text \<open>\<^verbatim>\<open>try: body finally: cleanup\<close>: the cleanup runs however the body ends, and then
  the body's result or exception stands, unless the cleanup raises itself.\<close>

definition try_finally :: "'a io \<Rightarrow> unit io \<Rightarrow> 'a io" where
  "try_finally body cleanup s =
     (case body s of (r, s1) \<Rightarrow>
        (case cleanup s1 of (Inl e, s2) \<Rightarrow> (Inl e, s2) | (Inr _, s2) \<Rightarrow> (r, s2)))"

definition log :: "event \<Rightarrow> unit io" where
  "log e s = (Inr (), s\<lparr>trace := trace s @ [e]\<rparr>)"

subsection \<open>The collaborators\<close>

text \<open>Modelled from the spec: \<^verbatim>\<open>set_awaiting_user_input\<close> of
  \<^verbatim>\<open>code_puppy.tools.command_runner\<close> is not in the sources; it sets or clears the signal
  that user input is being awaited.\<close>

definition set_awaiting_user_input :: "bool \<Rightarrow> unit io" where
  "set_awaiting_user_input b = log (Set_awaiting_user_input b)"

definition stdout_write :: "string \<Rightarrow> unit io" where
  "stdout_write t = log (Stdout_write t)"

definition stdout_flush :: "unit io" where
  "stdout_flush = log Stdout_flush"

text \<open>Modelled from the spec: \<^verbatim>\<open>emit_info\<close> and \<^verbatim>\<open>emit_warning\<close> of
  \<^verbatim>\<open>code_puppy.messaging\<close> are not in the sources; they show a message.\<close>

definition emit_info :: "string \<Rightarrow> unit io" where
  "emit_info t = log (Emit_info t)"

definition emit_warning :: "string \<Rightarrow> unit io" where
  "emit_warning t = log (Emit_warning t)"

text \<open>Modelled from the spec: \<^verbatim>\<open>safe_input\<close> of \<^verbatim>\<open>code_puppy.command_line.utils\<close> is
  not in the sources; it is a blocking line read that returns the line, or is interrupted
  by the user's cancel signal or by the end of the input. An input with nothing left is at
  its end.\<close>

definition safe_input :: "string \<Rightarrow> string io" where
  "safe_input p s =
     (let s1 = s\<lparr>trace := trace s @ [Prompt p]\<rparr> in
      case stdin s of
        [] \<Rightarrow> (Inl EOFError, s1)
      | Line l # rest \<Rightarrow> (Inr l, s1\<lparr>stdin := rest\<rparr>)
      | Interrupt # rest \<Rightarrow> (Inl KeyboardInterrupt, s1\<lparr>stdin := rest\<rparr>)
      | End_of_input # rest \<Rightarrow> (Inl EOFError, s1\<lparr>stdin := rest\<rparr>))"

text \<open>Modelled from the spec: \<^verbatim>\<open>set_config_value\<close> of \<^verbatim>\<open>code_puppy.config\<close> is not in
  the sources; it persists a value under a name in the general configuration store.\<close>

definition set_config_value :: "string \<Rightarrow> string \<Rightarrow> unit io" where
  "set_config_value k v s =
     (Inr (), s\<lparr>config_store := (config_store s)(k \<mapsto> v),
               trace := trace s @ [Set_config_value k v]\<rparr>)"

text \<open>\<^verbatim>\<open>os.environ.get(name)\<close>.\<close>

definition environ_get :: "string \<Rightarrow> string option io" where
  "environ_get k s = (Inr (os_environ s k), s)"

text \<open>\<^verbatim>\<open>os.environ[name] = value\<close>, as on POSIX: the assignment hands both to \<^verbatim>\<open>putenv\<close>
  and updates the mapping only when that returns. \<^verbatim>\<open>putenv\<close> refuses a NUL in the name or
  in the value and an equals sign in the name with \<^verbatim>\<open>ValueError\<close>, and the empty name with
  \<^verbatim>\<open>OSError\<close>.\<close>

definition putenv_refuses :: "string \<Rightarrow> string \<Rightarrow> exc option" where
  "putenv_refuses k v =
     (if CHR 0x00 \<in> set k \<or> CHR 0x00 \<in> set v then Some ValueError
      else if CHR ''='' \<in> set k then Some ValueError
      else if k = [] then Some OSError
      else None)"

definition environ_setitem :: "string \<Rightarrow> string \<Rightarrow> unit io" where
  "environ_setitem k v s =
     (let s1 = s\<lparr>trace := trace s @ [Environ_setitem k v]\<rparr> in
      case putenv_refuses k v of
        Some e \<Rightarrow> (Inl e, s1)
      | None \<Rightarrow> (Inr (), s1\<lparr>os_environ := (os_environ s)(k \<mapsto> v)\<rparr>))"

text \<open>The truth value of an optional string: None and the empty string are false.\<close>

definition truthy :: "string option \<Rightarrow> bool" where
  "truthy v = (case v of None \<Rightarrow> False | Some t \<Rightarrow> t \<noteq> [])"

text \<open>\<^verbatim>\<open>extra_models_path.exists()\<close>.\<close>

definition path_exists :: "bool io" where
  "path_exists s = (Inr (extra_models_file s \<noteq> Missing), s)"

text \<open>\<^verbatim>\<open>with open(extra_models_path, "r", encoding="utf-8") as f: json.load(f)\<close>.\<close>

definition open_read_json_load :: "json io" where
  "open_read_json_load s =
     (case extra_models_file s of
        Missing \<Rightarrow> (Inl OSError, s)
      | Unreadable \<Rightarrow> (Inl OSError, s)
      | Unparsable \<Rightarrow> (Inl ValueError, s)
      | Holds j \<Rightarrow> (Inr j, s))"

text \<open>\<^verbatim>\<open>extra_models_path.parent.mkdir(parents=True, exist_ok=True)\<close>.\<close>

definition mkdir_parents :: "unit io" where
  "mkdir_parents s =
     (let s1 = s\<lparr>trace := trace s @ [Mkdir_parents]\<rparr> in
      if fs_fault s = Some Mkdir_fails then (Inl OSError, s1) else (Inr (), s1))"

text \<open>\<^verbatim>\<open>with open(extra_models_path, "w", encoding="utf-8") as f: json.dump(obj, f, indent=n)\<close>:
  opening truncates the file, the dump fills it.\<close>

definition open_write_json_dump :: "json \<Rightarrow> nat \<Rightarrow> unit io" where
  "open_write_json_dump obj n s =
     (let s1 = s\<lparr>trace := trace s @ [Open_write]\<rparr> in
      if fs_fault s = Some Open_fails then (Inl OSError, s1)
      else
        let s2 = s1\<lparr>trace := trace s1 @ [Json_dump obj n]\<rparr> in
        if fs_fault s = Some Dump_fails then (Inl OSError, s2\<lparr>extra_models_file := Unparsable\<rparr>)
        else (Inr (), s2\<lparr>extra_models_file := Holds obj\<rparr>))"

text \<open>\<^verbatim>\<open>obj[key] = value\<close> with a string key: only a dict takes it.\<close>

definition py_setitem :: "json \<Rightarrow> string \<Rightarrow> json \<Rightarrow> json io" where
  "py_setitem obj k v =
     (case obj of JDict d \<Rightarrow> return (JDict (dict_setitem d k v)) | _ \<Rightarrow> raise TypeError)"

text \<open>\<^verbatim>\<open>Application.run\<close> of prompt\_toolkit with the two bindings of \<^verbatim>\<open>run\<close>: Enter
  stores \<^verbatim>\<open>"add_custom"\<close> in \<^verbatim>\<open>self.result\<close> and leaves the loop, Ctrl-C only leaves it,
  any other key is unbound, and an input that closes ends the loop with \<^verbatim>\<open>EOFError\<close>.\<close>

fun app_run_keys :: "key list \<Rightarrow> unit io" where
  "app_run_keys [] s = (Inl EOFError, s\<lparr>key_events := []\<rparr>)"
| "app_run_keys (Key_enter # ks) s =
     (Inr (), s\<lparr>self := (self s)\<lparr>result := Some ''add_custom''\<rparr>, key_events := ks\<rparr>)"
| "app_run_keys (Key_ctrl_c # ks) s = (Inr (), s\<lparr>key_events := ks\<rparr>)"
| "app_run_keys (Key_other # ks) s = app_run_keys ks s"

definition app_run :: "unit io" where
  "app_run s = app_run_keys (key_events s) s"

subsection \<open>The menu\<close>

text \<open>\<^verbatim>\<open>AddModelMenu.__init__\<close>; the key bindings and the empty list of models are left
  out, the two controls exist once \<^verbatim>\<open>run\<close> has made them.\<close>

definition custom_openai :: ProviderInfo where
  "custom_openai =
     \<lparr>provider_id = ''custom-openai'', provider_name = ''Custom OpenAI Compatible'',
      provider_env = [''CUSTOM_OPENAI_API_KEY''], provider_api = ''N/A''\<rparr>"

definition init_menu :: AddModelMenu where
  "init_menu =
     \<lparr>providers = [custom_openai], current_provider = Some custom_openai,
      view_mode = ''providers'', selected_provider_idx = 0, selected_model_idx = 0,
      result = None, menu_control = [], preview_control = []\<rparr>"

definition render_navigation_hints :: "(string \<times> string) list \<Rightarrow> (string \<times> string) list" where
  "render_navigation_hints lines =
     lines @ [([], [CHR 0x0A]), (''fg:green'', ''  Enter  ''), ([], ''Select/Add'' @ [CHR 0x0A]),
              (''fg:ansibrightred'', ''  Ctrl+C ''), ([], ''Cancel'')]"

definition render_provider_list :: "AddModelMenu \<Rightarrow> exc + (string \<times> string) list" where
  "render_provider_list m =
     (case providers m of
        [] \<Rightarrow> Inl IndexError
      | provider # _ \<Rightarrow>
          Inr (render_navigation_hints
                 [([], '' Providers'' @ [CHR 0x0A, CHR 0x0A]),
                  (''fg:ansicyan bold'', '' > '' @ provider_name provider),
                  ([], [CHR 0x0A]), ([], [CHR 0x0A])]))"

definition render_model_details :: "(string \<times> string) list" where
  "render_model_details =
     [(''dim cyan'', '' DETAILS'' @ [CHR 0x0A, CHR 0x0A]),
      (''bold'', ''  Custom OpenAI Compatible Endpoint'' @ [CHR 0x0A, CHR 0x0A]),
      (''fg:ansibrightblack'', ''  Add any model that supports the OpenAI API format.'' @ [CHR 0x0A]),
      (''fg:ansibrightblack'', ''  You will need:'' @ [CHR 0x0A]),
      (''fg:ansibrightblack'', ''  1. API Endpoint URL'' @ [CHR 0x0A]),
      (''fg:ansibrightblack'', ''  2. API Key'' @ [CHR 0x0A]),
      (''fg:ansibrightblack'', ''  3. Model ID (e.g. gpt-4, llama-3)'' @ [CHR 0x0A])]"

definition update_display :: "unit io" where
  "update_display s =
     (case render_provider_list (self s) of
        Inl e \<Rightarrow> (Inl e, s)
      | Inr lines \<Rightarrow>
          (Inr (), s\<lparr>self := (self s)\<lparr>menu_control := lines,
                                       preview_control := render_model_details\<rparr>\<rparr>))"

subsection \<open>Saving\<close>

text \<open>\<^verbatim>\<open>AddModelMenu._save_config\<close>.\<close>

definition save_config :: "string \<Rightarrow> json \<Rightarrow> unit io" where
  "save_config k config =
     bind path_exists (\<lambda>ex.
     bind (if ex then try_except open_read_json_load is_Exception (return (JDict []))
           else return (JDict [])) (\<lambda>loaded.
     bind (py_setitem loaded k config) (\<lambda>extra_models.
     seq mkdir_parents
    (seq (open_write_json_dump extra_models 4)
         (emit_info ([CHR 0xE2, CHR 0x9C, CHR 0x85] @ '' Added '' @ k @ '' to configuration.''))))))"

subsection \<open>The prompts\<close>

text \<open>The entry that \<^verbatim>\<open>_prompt_custom_flow\<close> builds.\<close>

definition model_config :: "string \<Rightarrow> string \<Rightarrow> string \<Rightarrow> int \<Rightarrow> json" where
  "model_config base_url model_id env_var_name context_length =
     JDict [(''type'', JStr ''custom_openai''),
            (''name'', JStr model_id),
            (''custom_endpoint'',
               JDict [(''url'', JStr base_url), (''api_key'', JStr (''$'' @ env_var_name))]),
            (''context_length'', JInt context_length),
            (''supported_settings'', JList [JStr ''temperature'', JStr ''top_p''])]"

text \<open>Step 4 of \<^verbatim>\<open>_prompt_custom_flow\<close>: the default stands unless the answer is not
  empty and \<^verbatim>\<open>int\<close> accepts it.\<close>

definition context_length_of :: "string \<Rightarrow> int" where
  "context_length_of ctx_input =
     (if ctx_input \<noteq> [] then (case py_int ctx_input of Some n \<Rightarrow> n | None \<Rightarrow> 128000)
      else 128000)"

text \<open>The check of the environment variable and the fifth prompt.\<close>

definition ask_key_value :: "string \<Rightarrow> unit io" where
  "ask_key_value env_var_name =
     bind (environ_get env_var_name) (\<lambda>cur.
       if \<not> truthy cur then
         bind (safe_input (''  Enter value for '' @ env_var_name @ '' (will be saved): ''))
           (\<lambda>key_val.
              if key_val \<noteq> [] then
                seq (set_config_value env_var_name key_val)
                    (environ_setitem env_var_name key_val)
              else return ())
       else return ())"

text \<open>\<^verbatim>\<open>AddModelMenu._prompt_custom_flow\<close>.\<close>

definition prompt_custom_flow :: "bool io" where
  "prompt_custom_flow =
     try_except
       (seq (emit_info ([CHR 0x0A, CHR 0xE2, CHR 0x9C, CHR 0xA8]
                        @ '' Add Custom OpenAI-Compatible Model'' @ [CHR 0x0A]))
       (bind (safe_input ''  API Base URL (e.g., https://api.openai.com/v1): '') (\<lambda>base_url.
          if base_url = [] then return False else
        bind (safe_input ''  Model ID (e.g., gpt-4o): '') (\<lambda>model_id.
          if model_id = [] then return False else
        bind (safe_input ''  Environment Variable for API Key (e.g., OPENAI_API_KEY): '')
          (\<lambda>env_var_name.
          if env_var_name = [] then return False else
        bind (safe_input ''  Context Length [128000]: '') (\<lambda>ctx_input.
        seq (ask_key_value env_var_name)
       (seq (save_config (''custom-'' @ model_id)
               (model_config base_url model_id env_var_name (context_length_of ctx_input)))
            (return True))))))))
       (\<lambda>e. e = KeyboardInterrupt \<or> e = EOFError)
       (seq (emit_warning (CHR 0x0A # ''Cancelled.'')) (return False))"

subsection \<open>The whole flow\<close>

text \<open>\<^verbatim>\<open>AddModelMenu.run\<close>, from the making of the two controls on; the windows, frames
  and layout it builds before hold no state.\<close>

definition enter_alt_screen :: string where
  "enter_alt_screen = CHR 0x1B # ''[?1049h''"

definition clear_screen :: string where
  "clear_screen = CHR 0x1B # ''[2J'' @ CHR 0x1B # ''[H''"

definition leave_alt_screen :: string where
  "leave_alt_screen = CHR 0x1B # ''[?1049l''"

definition make_controls :: "unit io" where
  "make_controls s = (Inr (), s\<lparr>self := (self s)\<lparr>menu_control := [], preview_control := []\<rparr>\<rparr>)"

definition get_result :: "string option io" where
  "get_result s = (Inr (result (self s)), s)"

definition run :: "bool io" where
  "run =
     seq make_controls
    (seq (set_awaiting_user_input True)
    (seq (stdout_write enter_alt_screen)
    (seq (stdout_write clear_screen)
    (seq stdout_flush
    (seq (try_finally
            (seq update_display app_run)
            (seq (stdout_write leave_alt_screen)
            (seq stdout_flush
                 (set_awaiting_user_input False))))
         (bind get_result (\<lambda>r.
            if r = Some ''add_custom'' then prompt_custom_flow else return False)))))))"

text \<open>\<^verbatim>\<open>interactive_model_picker\<close>: a new menu, then \<^verbatim>\<open>run\<close>.\<close>

definition interactive_model_picker :: "bool io" where
  "interactive_model_picker s = run (s\<lparr>self := init_menu\<rparr>)"

subsection \<open>Vocabulary of the statements\<close>

text \<open>The texts the module shows, by name.\<close>

definition intro_message :: string where
  "intro_message =
     [CHR 0x0A, CHR 0xE2, CHR 0x9C, CHR 0xA8] @ '' Add Custom OpenAI-Compatible Model'' @ [CHR 0x0A]"

definition url_prompt :: string where
  "url_prompt = ''  API Base URL (e.g., https://api.openai.com/v1): ''"

definition model_prompt :: string where
  "model_prompt = ''  Model ID (e.g., gpt-4o): ''"

definition env_prompt :: string where
  "env_prompt = ''  Environment Variable for API Key (e.g., OPENAI_API_KEY): ''"

definition ctx_prompt :: string where
  "ctx_prompt = ''  Context Length [128000]: ''"

definition key_prompt :: "string \<Rightarrow> string" where
  "key_prompt env = ''  Enter value for '' @ env @ '' (will be saved): ''"

definition cancelled_message :: string where
  "cancelled_message = CHR 0x0A # ''Cancelled.''"

definition added_message :: "string \<Rightarrow> string" where
  "added_message k = [CHR 0xE2, CHR 0x9C, CHR 0x85] @ '' Added '' @ k @ '' to configuration.''"

text \<open>What a successful save adds to the trace, and what the display phase adds.\<close>

definition save_trace :: "json \<Rightarrow> string \<Rightarrow> event list" where
  "save_trace obj k = [Mkdir_parents, Open_write, Json_dump obj 4, Emit_info (added_message k)]"

definition display_trace :: "event list" where
  "display_trace =
     [Set_awaiting_user_input True, Stdout_write enter_alt_screen, Stdout_write clear_screen,
      Stdout_flush, Stdout_write leave_alt_screen, Stdout_flush, Set_awaiting_user_input False]"

text \<open>The mapping a save starts from: the file's, the empty one when the file is absent,
  unreadable or unparsable, and none when the file holds JSON that is not an object.\<close>

definition start_dict :: "file_state \<Rightarrow> (string \<times> json) list option" where
  "start_dict f = (case f of Holds (JDict d) \<Rightarrow> Some d | Holds _ \<Rightarrow> None | _ \<Rightarrow> Some [])"

text \<open>Kinds of events: the prompts, the calls that write the file, the calls to the
  terminal, the warnings.\<close>

fun is_prompt :: "event \<Rightarrow> bool" where
  "is_prompt (Prompt p) = True"
| "is_prompt _ = False"

fun is_write :: "event \<Rightarrow> bool" where
  "is_write Mkdir_parents = True"
| "is_write Open_write = True"
| "is_write (Json_dump obj n) = True"
| "is_write _ = False"

fun terminal_event :: "event \<Rightarrow> bool" where
  "terminal_event (Set_awaiting_user_input b) = True"
| "terminal_event (Stdout_write t) = True"
| "terminal_event Stdout_flush = True"
| "terminal_event _ = False"

fun is_warning :: "event \<Rightarrow> bool" where
  "is_warning (Emit_warning t) = True"
| "is_warning _ = False"

text \<open>The rest of \<^verbatim>\<open>_prompt_custom_flow\<close> once four answers are in: the check of the
  environment variable, the save, and the handler around them.\<close>

definition flow_tail :: "string \<Rightarrow> string \<Rightarrow> json \<Rightarrow> bool io" where
  "flow_tail env k c =
     try_except (seq (ask_key_value env) (seq (save_config k c) (return True)))
       (\<lambda>e. e = KeyboardInterrupt \<or> e = EOFError)
       (seq (emit_warning cancelled_message) (return False))"

text \<open>An input that interrupts the next prompt: it is at its end, or Ctrl-C or the end of
  the input comes next.\<close>

definition interrupted :: "answer list \<Rightarrow> bool" where
  "interrupted rest = (case rest of [] \<Rightarrow> True | Line l # r \<Rightarrow> False | _ \<Rightarrow> True)"

text \<open>The keys from the first bound one on.\<close>

definition first_key :: "key list \<Rightarrow> key list" where
  "first_key ks = dropWhile (\<lambda>k. k = Key_other) ks"

text \<open>The new menu once \<^verbatim>\<open>update_display\<close> has filled its two panes, and the state in
  which the prompts start after Enter.\<close>

definition provider_list_text :: "(string \<times> string) list" where
  "provider_list_text =
     render_navigation_hints
       [([], '' Providers'' @ [CHR 0x0A, CHR 0x0A]),
        (''fg:ansicyan bold'', '' > '' @ provider_name custom_openai),
        ([], [CHR 0x0A]), ([], [CHR 0x0A])]"

definition shown_menu :: AddModelMenu where
  "shown_menu = init_menu\<lparr>menu_control := provider_list_text,
                            preview_control := render_model_details\<rparr>"

definition confirmed_state :: "state \<Rightarrow> key list \<Rightarrow> state" where
  "confirmed_state s r =
     s\<lparr>self := shown_menu\<lparr>result := Some ''add_custom''\<rparr>, key_events := r,
       trace := trace s @ display_trace\<rparr>"

text \<open>The entry the file holds under a key, and a field of an entry.\<close>

definition saved_entry :: "state \<Rightarrow> string \<Rightarrow> json option" where
  "saved_entry s k = (case extra_models_file s of Holds (JDict d) \<Rightarrow> dict_get d k | _ \<Rightarrow> None)"

definition entry_field :: "string \<Rightarrow> json option \<Rightarrow> json option" where
  "entry_field f e = (case e of Some (JDict kvs) \<Rightarrow> dict_get kvs f | _ \<Rightarrow> None)"

text \<open>A statement is quiet when it only appends to the trace and appends no call to the
  terminal.\<close>

definition quiet :: "'a io \<Rightarrow> bool" where
  "quiet m = (\<forall>s. \<exists>tr. trace (snd (m s)) = trace s @ tr \<and> filter terminal_event tr = [])"

text \<open>A state to run the definitions on: a new menu, an empty configuration store and
  an empty trace.\<close>

definition example_state ::
  "file_state \<Rightarrow> fs_fault option \<Rightarrow> (string \<rightharpoonup> string) \<Rightarrow> key list \<Rightarrow> answer list \<Rightarrow> state" where
  "example_state f flt env ks ins =
     \<lparr>self = init_menu, os_environ = env, config_store = Map.empty, extra_models_file = f,
      fs_fault = flt, key_events = ks, stdin = ins, trace = []\<rparr>"

text \<open>A run in which Enter is pressed, \<open>FOO_KEY\<close> is set, the file holds one entry and
  the given answers are typed.\<close>

definition typed :: "answer list \<Rightarrow> state" where
  "typed ins =
     example_state (Holds (JDict [(''a'', JNull)])) None [''FOO_KEY'' \<mapsto> ''sk-1'']
       [Key_other, Key_enter] ins"

section \<open>Properties\<close>

subsection \<open>Running the definitions\<close>

lemmas io_defs = return_def raise_def bind_def seq_def try_except_def try_finally_def log_def
  set_awaiting_user_input_def stdout_write_def stdout_flush_def emit_info_def emit_warning_def
  safe_input_def set_config_value_def environ_get_def environ_setitem_def path_exists_def
  open_read_json_load_def mkdir_parents_def open_write_json_dump_def py_setitem_def

lemma save_config_ok:
  assumes "start_dict (extra_models_file s) = Some d" "fs_fault s = None"
  shows "save_config k c s =
    (Inr (), s\<lparr>extra_models_file := Holds (JDict (dict_setitem d k c)),
              trace := trace s @ save_trace (JDict (dict_setitem d k c)) k\<rparr>)"
  using assms
  by (auto simp add: save_config_def io_defs is_Exception_def start_dict_def save_trace_def
        added_message_def split: file_state.splits json.splits)

lemma save_config_Inr:
  assumes "save_config k c s = (Inr u, s')"
  shows "fs_fault s = None \<and> (\<exists>d. start_dict (extra_models_file s) = Some d)"
proof (cases "fs_fault s")
  case None
  with assms show ?thesis 
  by (auto simp add: save_config_def io_defs is_Exception_def start_dict_def
         split: file_state.splits json.splits)
next
  case (Some f)
  with assms show ?thesis
    by (cases f) (auto simp add: save_config_def io_defs is_Exception_def Let_def
         split: file_state.splits json.splits if_splits)
qed

lemma save_config_raises:
  "fst (save_config k c s) \<in> {Inr (), Inl TypeError, Inl OSError}"
  by (auto simp add: save_config_def io_defs is_Exception_def Let_def
         split: file_state.splits json.splits if_splits)

lemma save_config_frame:
  "os_environ (snd (save_config k c s)) = os_environ s \<and>
   config_store (snd (save_config k c s)) = config_store s \<and>
   stdin (snd (save_config k c s)) = stdin s \<and>
   self (snd (save_config k c s)) = self s \<and>
   filter is_prompt (trace (snd (save_config k c s))) = filter is_prompt (trace s)"
  by (auto simp add: save_config_def io_defs is_Exception_def Let_def
         split: file_state.splits json.splits if_splits)

lemmas text_defs = intro_message_def url_prompt_def model_prompt_def env_prompt_def
  ctx_prompt_def key_prompt_def cancelled_message_def

lemma flow_four_lines:
  assumes "stdin s = Line url # Line mid # Line env # Line ctx # rest"
    and "url \<noteq> []" and "mid \<noteq> []" and "env \<noteq> []"
  shows "prompt_custom_flow s =
    flow_tail env (''custom-'' @ mid) (model_config url mid env (context_length_of ctx))
      (s\<lparr>trace := trace s @ [Emit_info intro_message, Prompt url_prompt, Prompt model_prompt,
                             Prompt env_prompt, Prompt ctx_prompt],
         stdin := rest\<rparr>)"
  using assms
  by (simp add: prompt_custom_flow_def flow_tail_def text_defs return_def bind_def seq_def
        try_except_def log_def emit_info_def safe_input_def)

lemma ask_key_value_set:
  "truthy (os_environ s env) \<Longrightarrow> ask_key_value env s = (Inr (), s)"
  by (simp add: ask_key_value_def io_defs)

lemma ask_key_value_answer:
  assumes "\<not> truthy (os_environ s env)" and "stdin s = Line v # r" and "v \<noteq> []"
    and "putenv_refuses env v = None"
  shows "ask_key_value env s =
    (Inr (), s\<lparr>os_environ := (os_environ s)(env \<mapsto> v),
              config_store := (config_store s)(env \<mapsto> v),
              stdin := r,
              trace := trace s @ [Prompt (key_prompt env), Set_config_value env v,
                                  Environ_setitem env v]\<rparr>)"
  using assms by (simp add: ask_key_value_def io_defs text_defs)

lemma ask_key_value_refused:
  assumes "\<not> truthy (os_environ s env)" and "stdin s = Line v # r" and "v \<noteq> []"
    and "putenv_refuses env v = Some e"
  shows "ask_key_value env s =
    (Inl e, s\<lparr>config_store := (config_store s)(env \<mapsto> v),
             stdin := r,
             trace := trace s @ [Prompt (key_prompt env), Set_config_value env v,
                                 Environ_setitem env v]\<rparr>)"
  using assms by (simp add: ask_key_value_def io_defs text_defs)

lemma putenv_refuses_exc:
  "putenv_refuses k v = Some e \<Longrightarrow> e \<noteq> KeyboardInterrupt \<and> e \<noteq> EOFError"
  by (auto simp add: putenv_refuses_def split: if_splits)

lemma ask_key_value_blank:
  assumes "\<not> truthy (os_environ s env)" and "stdin s = Line [] # r"
  shows "ask_key_value env s =
    (Inr (), s\<lparr>stdin := r, trace := trace s @ [Prompt (key_prompt env)]\<rparr>)"
  using assms by (simp add: ask_key_value_def io_defs text_defs)

lemma flow_tail_saves:
  assumes "ask_key_value env s = (Inr (), s1)"
  shows "flow_tail env k c s =
    (case save_config k c s1 of (Inl e, s2) \<Rightarrow> (Inl e, s2) | (Inr _, s2) \<Rightarrow> (Inr True, s2))"
  using assms save_config_raises [of k c s1]
  by (auto simp add: flow_tail_def return_def bind_def seq_def try_except_def split: prod.splits sum.splits)

lemma short_list_cases:
  assumes "length (ls :: 'a list) \<le> 3"
  obtains "ls = []" | a where "ls = [a]" | a b where "ls = [a, b]" | a b c where "ls = [a, b, c]"
proof (cases ls)
  case Nil then show ?thesis using that by simp
next
  case (Cons a l1)
  show ?thesis
  proof (cases l1)
    case Nil with Cons show ?thesis using that by simp
  next
    case (Cons b l2)
    note c2 = this
    show ?thesis
    proof (cases l2)
      case Nil with \<open>ls = a # l1\<close> c2 show ?thesis using that by simp
    next
      case (Cons c l3)
      with \<open>ls = a # l1\<close> c2 assms have "l3 = []" by simp
      with Cons \<open>ls = a # l1\<close> c2 show ?thesis using that by simp
    qed
  qed
qed

lemma flow_cancelled:
  assumes "stdin s = map Line ls @ rest" and "length ls \<le> 3" and "interrupted rest"
  shows "fst (prompt_custom_flow s) = Inr False \<and>
         extra_models_file (snd (prompt_custom_flow s)) = extra_models_file s \<and>
         os_environ (snd (prompt_custom_flow s)) = os_environ s \<and>
         config_store (snd (prompt_custom_flow s)) = config_store s \<and>
         filter is_write (trace (snd (prompt_custom_flow s))) = filter is_write (trace s)"
  using assms(2)
proof (cases ls rule: short_list_cases)
  case 1
  with assms(1,3) show ?thesis
    by (auto simp add: interrupted_def prompt_custom_flow_def return_def bind_def seq_def
          try_except_def log_def emit_info_def emit_warning_def safe_input_def
          split: list.splits answer.splits)
next
  case (2 a)
  with assms(1,3) show ?thesis
    by (auto simp add: interrupted_def prompt_custom_flow_def return_def bind_def seq_def
          try_except_def log_def emit_info_def emit_warning_def safe_input_def
          split: list.splits answer.splits)
next
  case (3 a b)
  with assms(1,3) show ?thesis
    by (auto simp add: interrupted_def prompt_custom_flow_def return_def bind_def seq_def
          try_except_def log_def emit_info_def emit_warning_def safe_input_def
          split: list.splits answer.splits)
next
  case (4 a b c)
  with assms(1,3) show ?thesis
    by (auto simp add: interrupted_def prompt_custom_flow_def return_def bind_def seq_def
          try_except_def log_def emit_info_def emit_warning_def safe_input_def
          split: list.splits answer.splits)
qed

lemma app_run_keys_ctrl_c:
  "first_key ks = Key_ctrl_c # r \<Longrightarrow> app_run_keys ks s = (Inr (), s\<lparr>key_events := r\<rparr>)"
proof (induction ks)
  case Nil
  then show ?case by (simp add: first_key_def)
next
  case (Cons k ks)
  then show ?case by (cases k) (simp_all add: first_key_def)
qed

lemma app_run_keys_enter:
  "first_key ks = Key_enter # r \<Longrightarrow>
   app_run_keys ks s =
     (Inr (), s\<lparr>self := (self s)\<lparr>result := Some ''add_custom''\<rparr>, key_events := r\<rparr>)"
proof (induction ks)
  case Nil
  then show ?case by (simp add: first_key_def)
next
  case (Cons k ks)
  then show ?case by (cases k) (simp_all add: first_key_def)
qed

lemma app_run_keys_closed:
  "first_key ks = [] \<Longrightarrow> app_run_keys ks s = (Inl EOFError, s\<lparr>key_events := []\<rparr>)"
proof (induction ks)
  case Nil
  then show ?case by simp
next
  case (Cons k ks)
  then show ?case by (cases k) (simp_all add: first_key_def)
qed

lemma app_run_keys_frame:
  "trace (snd (app_run_keys ks s)) = trace s \<and>
   stdin (snd (app_run_keys ks s)) = stdin s \<and>
   os_environ (snd (app_run_keys ks s)) = os_environ s \<and>
   config_store (snd (app_run_keys ks s)) = config_store s \<and>
   extra_models_file (snd (app_run_keys ks s)) = extra_models_file s \<and>
   fs_fault (snd (app_run_keys ks s)) = fs_fault s"
proof (induction ks)
  case Nil
  then show ?case by simp
next
  case (Cons k ks)
  then show ?case by (cases k) simp_all
qed

lemma display_body_frame:
  "trace (snd (seq update_display app_run s)) = trace s \<and>
   stdin (snd (seq update_display app_run s)) = stdin s \<and>
   os_environ (snd (seq update_display app_run s)) = os_environ s \<and>
   config_store (snd (seq update_display app_run s)) = config_store s \<and>
   extra_models_file (snd (seq update_display app_run s)) = extra_models_file s \<and>
   fs_fault (snd (seq update_display app_run s)) = fs_fault s"
  using app_run_keys_frame
  by (simp add: seq_def bind_def update_display_def app_run_def split: sum.splits)

lemma run_structure:
  obtains (raised) e s3 where "run s = (Inl e, s3)" and "trace s3 = trace s @ display_trace"
  | (declined) s3 where "run s = (Inr False, s3)" and "trace s3 = trace s @ display_trace"
  | (confirmed) s3 where "run s = prompt_custom_flow s3" and "trace s3 = trace s @ display_trace"
proof -
  define s1 where "s1 = s\<lparr>self := (self s)\<lparr>menu_control := [], preview_control := []\<rparr>,
      trace := trace s @ [Set_awaiting_user_input True, Stdout_write enter_alt_screen,
                          Stdout_write clear_screen, Stdout_flush]\<rparr>"
  obtain r s2 where body: "seq update_display app_run s1 = (r, s2)"
    by (cases "seq update_display app_run s1")
  have tr2: "trace s2 = trace s1"
    using display_body_frame [of s1] body by simp
  define s3 where "s3 = s2\<lparr>trace := trace s2 @ [Stdout_write leave_alt_screen, Stdout_flush,
                                               Set_awaiting_user_input False]\<rparr>"
  have tr3: "trace s3 = trace s @ display_trace"
    by (simp add: s3_def tr2 s1_def display_trace_def)
  have run_eq: "run s = (case r of Inl e \<Rightarrow> (Inl e, s3)
                         | Inr _ \<Rightarrow> if result (self s3) = Some ''add_custom''
                                    then prompt_custom_flow s3 else (Inr False, s3))"
    using body
    by (simp add: run_def seq_def bind_def try_finally_def make_controls_def log_def
          set_awaiting_user_input_def stdout_write_def stdout_flush_def get_result_def
          return_def s1_def s3_def split: sum.splits)
  show ?thesis
  proof (cases r)
    case (Inl e)
    with run_eq tr3 raised show ?thesis by simp
  next
    case (Inr u)
    with run_eq tr3 declined confirmed show ?thesis by (cases "result (self s3) = Some ''add_custom''") simp_all
  qed
qed

lemma render_init: "render_provider_list init_menu = Inr provider_list_text"
  by (simp add: render_provider_list_def init_menu_def provider_list_text_def)

lemma init_controls: "init_menu\<lparr>menu_control := [], preview_control := []\<rparr> = init_menu"
  by (simp add: init_menu_def)

lemma update_display_init:
  "self s = init_menu \<Longrightarrow> update_display s = (Inr (), s\<lparr>self := shown_menu\<rparr>)"
  by (simp add: update_display_def render_init shown_menu_def)

lemma result_shown_menu: "result shown_menu = None"
  by (simp add: shown_menu_def init_menu_def)

lemmas run_defs = run_def seq_def bind_def try_finally_def make_controls_def log_def
  set_awaiting_user_input_def stdout_write_def stdout_flush_def get_result_def
  return_def app_run_def interactive_model_picker_def

lemma picker_ctrl_c:
  assumes "first_key (key_events s) = Key_ctrl_c # r"
  shows "interactive_model_picker s =
    (Inr False, s\<lparr>self := shown_menu, key_events := r, trace := trace s @ display_trace\<rparr>)"
  using assms
  by (simp add: run_defs init_controls update_display_init app_run_keys_ctrl_c
        result_shown_menu display_trace_def)

lemma picker_closed:
  assumes "first_key (key_events s) = []"
  shows "interactive_model_picker s =
    (Inl EOFError, s\<lparr>self := shown_menu, key_events := [], trace := trace s @ display_trace\<rparr>)"
  using assms
  by (simp add: run_defs init_controls update_display_init app_run_keys_closed
        display_trace_def)

lemma picker_enter:
  assumes "first_key (key_events s) = Key_enter # r"
  shows "interactive_model_picker s = prompt_custom_flow (confirmed_state s r)"
  using assms
  by (simp add: run_defs init_controls update_display_init app_run_keys_enter
        display_trace_def confirmed_state_def)

lemma confirmed_state_simps:
  "stdin (confirmed_state s r) = stdin s"
  "os_environ (confirmed_state s r) = os_environ s"
  "config_store (confirmed_state s r) = config_store s"
  "extra_models_file (confirmed_state s r) = extra_models_file s"
  "fs_fault (confirmed_state s r) = fs_fault s"
  "trace (confirmed_state s r) = trace s @ display_trace"
  by (simp_all add: confirmed_state_def)

lemma first_key_cases:
  obtains (closed) "first_key ks = []"
  | (enter) r where "first_key ks = Key_enter # r"
  | (ctrl_c) r where "first_key ks = Key_ctrl_c # r"
proof (cases "first_key ks")
  case Nil
  then show ?thesis using closed by simp
next
  case (Cons k r)
  have "k \<noteq> Key_other"
    using Cons hd_dropWhile [of "\<lambda>k. k = Key_other" ks] by (auto simp add: first_key_def)
  then show ?thesis using Cons enter ctrl_c by (cases k) simp_all
qed

subsection \<open>Saving\<close>

lemma dict_get_setitem_same: "dict_get (dict_setitem d k v) k = Some v"
  by (induction d) (auto simp add: dict_get_def)

lemma dict_get_setitem_other: "k' \<noteq> k \<Longrightarrow> dict_get (dict_setitem d k v) k' = dict_get d k'"
  by (induction d) (auto simp add: dict_get_def)

lemma dict_setitem_others:
  "filter (\<lambda>p. fst p \<noteq> k) (dict_setitem d k v) = filter (\<lambda>p. fst p \<noteq> k) d"
  by (induction d) auto

text \<open>
  C2. Saving into a file that holds a mapping sets the one key and keeps every other key:
  the save succeeds, the new mapping gives the entry at the key, gives at every other key
  what the old mapping gave, and its entries under other keys are the old ones in the old
  order. On a file holding only \<open>"a"\<close>, saving \<open>"b"\<close> leaves \<open>"a"\<close> as it was, followed
  by \<open>"b"\<close>.
\<close>

theorem save_config_keeps_other_keys:
  assumes "extra_models_file s = Holds (JDict d)" and "fs_fault s = None"
  shows "\<exists>d'. save_config k entry s =
              (Inr (), s\<lparr>extra_models_file := Holds (JDict d'),
                        trace := trace s @ save_trace (JDict d') k\<rparr>)
            \<and> dict_get d' k = Some entry
            \<and> (\<forall>k'. k' \<noteq> k \<longrightarrow> dict_get d' k' = dict_get d k')
            \<and> filter (\<lambda>p. fst p \<noteq> k) d' = filter (\<lambda>p. fst p \<noteq> k) d
            \<and> (d = [(''a'', a)] \<and> k = ''b'' \<longrightarrow> d' = [(''a'', a), (''b'', entry)])"
proof (intro exI conjI)
  show "save_config k entry s =
          (Inr (), s\<lparr>extra_models_file := Holds (JDict (dict_setitem d k entry)),
                    trace := trace s @ save_trace (JDict (dict_setitem d k entry)) k\<rparr>)"
    using assms by (simp add: save_config_ok start_dict_def)
  show "dict_get (dict_setitem d k entry) k = Some entry"
    by (rule dict_get_setitem_same)
  show "\<forall>k'. k' \<noteq> k \<longrightarrow> dict_get (dict_setitem d k entry) k' = dict_get d k'"
    by (simp add: dict_get_setitem_other)
  show "filter (\<lambda>p. fst p \<noteq> k) (dict_setitem d k entry) = filter (\<lambda>p. fst p \<noteq> k) d"
    by (rule dict_setitem_others)
  show "d = [(''a'', a)] \<and> k = ''b'' \<longrightarrow> dict_setitem d k entry = [(''a'', a), (''b'', entry)]"
    by simp
qed

theorem save_config_keeps_other_keys_witness:
  "extra_models_file
     (example_state (Holds (JDict [(''a'', JDict [(''name'', JStr ''x'')])])) None Map.empty [] [])
     = Holds (JDict [(''a'', JDict [(''name'', JStr ''x'')])])
   \<and> fs_fault
       (example_state (Holds (JDict [(''a'', JDict [(''name'', JStr ''x'')])])) None Map.empty [] [])
     = None
   \<and> fst (save_config ''b'' (JDict [])
         (example_state (Holds (JDict [(''a'', JDict [(''name'', JStr ''x'')])])) None Map.empty [] []))
     = Inr ()
   \<and> extra_models_file (snd (save_config ''b'' (JDict [])
         (example_state (Holds (JDict [(''a'', JDict [(''name'', JStr ''x'')])])) None Map.empty [] [])))
     = Holds (JDict [(''a'', JDict [(''name'', JStr ''x'')]), (''b'', JDict [])])"
  using save_config_keeps_other_keys
    [of "example_state (Holds (JDict [(''a'', JDict [(''name'', JStr ''x'')])])) None Map.empty [] []"
        "[(''a'', JDict [(''name'', JStr ''x'')])]" "''b''" "JDict []" "JDict [(''name'', JStr ''x'')]"]
  by (auto simp add: example_state_def)

text \<open>
  C4. When the file exists but cannot be read or is not JSON, the exception of the load is
  swallowed and the save starts from the empty mapping: the save succeeds, the file then
  holds the new entry alone, and what the save adds to the trace is the writing and the
  confirmation, no warning.
\<close>

theorem save_config_corrupt_file_starts_empty:
  assumes "extra_models_file s = Unreadable \<or> extra_models_file s = Unparsable"
    and "fs_fault s = None"
  shows "try_except open_read_json_load is_Exception (return (JDict [])) s = (Inr (JDict []), s)
       \<and> save_config k entry s =
           (Inr (), s\<lparr>extra_models_file := Holds (JDict [(k, entry)]),
                     trace := trace s @ [Mkdir_parents, Open_write,
                                         Json_dump (JDict [(k, entry)]) 4,
                                         Emit_info (added_message k)]\<rparr>)"
  using assms
  by (auto simp add: save_config_def io_defs is_Exception_def added_message_def)

theorem save_config_corrupt_file_starts_empty_witness:
  "extra_models_file (example_state Unparsable None Map.empty [] []) = Unparsable
   \<and> fs_fault (example_state Unparsable None Map.empty [] []) = None
   \<and> fst (save_config ''custom-m'' (JDict []) (example_state Unparsable None Map.empty [] []))
       = Inr ()
   \<and> extra_models_file
       (snd (save_config ''custom-m'' (JDict []) (example_state Unparsable None Map.empty [] [])))
       = Holds (JDict [(''custom-m'', JDict [])])
   \<and> trace (snd (save_config ''custom-m'' (JDict []) (example_state Unparsable None Map.empty [] [])))
       = [Mkdir_parents, Open_write, Json_dump (JDict [(''custom-m'', JDict [])]) 4,
          Emit_info (added_message ''custom-m'')]"
  using save_config_corrupt_file_starts_empty
    [of "example_state Unparsable None Map.empty [] []" "''custom-m''" "JDict []"]
  by (simp add: example_state_def)

text \<open>
  A file that holds JSON other than an object is neither unreadable nor unparsable: the
  load succeeds, and the item assignment raises \<^verbatim>\<open>TypeError\<close> before anything is written.
\<close>

lemma save_config_not_a_mapping:
  assumes "extra_models_file s = Holds j" and "\<forall>d. j \<noteq> JDict d"
  shows "save_config k c s = (Inl TypeError, s)"
  using assms
  by (cases j) (simp_all add: save_config_def io_defs is_Exception_def)

subsection \<open>The prompts, case by case\<close>

lemmas flow_defs = prompt_custom_flow_def return_def bind_def seq_def
          try_except_def log_def emit_info_def emit_warning_def safe_input_def

lemma flow_empty:
  assumes "stdin s = map Line ls @ Line [] # rest" and "length ls \<le> 2"
  shows "fst (prompt_custom_flow s) = Inr False \<and>
         extra_models_file (snd (prompt_custom_flow s)) = extra_models_file s \<and>
         os_environ (snd (prompt_custom_flow s)) = os_environ s \<and>
         config_store (snd (prompt_custom_flow s)) = config_store s \<and>
         filter is_write (trace (snd (prompt_custom_flow s))) = filter is_write (trace s)"
proof -
  from assms(2) have "length ls \<le> 3" by simp
  then show ?thesis
  proof (cases ls rule: short_list_cases)
    case 1
    with assms(1) show ?thesis by (simp add: flow_defs)
  next
    case (2 a)
    with assms(1) show ?thesis by (simp add: flow_defs)
  next
    case (3 a b)
    with assms(1) show ?thesis by (simp add: flow_defs)
  next
    case (4 a b c)
    with assms(2) show ?thesis by simp
  qed
qed

lemma stdin_shape:
  obtains (short) ls rest where "ins = map Line ls @ rest" and "length ls \<le> 3" and "interrupted rest"
  | (four) a b c d rest where "ins = Line a # Line b # Line c # Line d # rest"
proof -
  have "(\<exists>ls rest. ins = map Line ls @ rest \<and> length ls \<le> 3 \<and> interrupted rest) \<or>
        (\<exists>a b c d rest. ins = Line a # Line b # Line c # Line d # rest)"
  proof (cases ins)
    case Nil
    then have "ins = map Line [] @ [] \<and> length ([] :: string list) \<le> 3 \<and> interrupted []"
      by (simp add: interrupted_def)
    then show ?thesis by blast
  next
    case c1: (Cons x1 r1)
    show ?thesis
    proof (cases "\<exists>a. x1 = Line a")
      case False
      then have "ins = map Line [] @ ins \<and> length ([] :: string list) \<le> 3 \<and> interrupted ins"
        using c1 by (cases x1) (simp_all add: interrupted_def)
      then show ?thesis by blast
    next
      case True
      then obtain a where a: "x1 = Line a" by blast
      show ?thesis
      proof (cases r1)
        case Nil
        then have "ins = map Line [a] @ [] \<and> length [a] \<le> 3 \<and> interrupted []"
          using c1 a by (simp add: interrupted_def)
        then show ?thesis by blast
      next
        case c2: (Cons x2 r2)
        show ?thesis
        proof (cases "\<exists>b. x2 = Line b")
          case False
          then have "ins = map Line [a] @ r1 \<and> length [a] \<le> 3 \<and> interrupted r1"
            using c1 a c2 by (cases x2) (simp_all add: interrupted_def)
          then show ?thesis by blast
        next
          case True
          then obtain b where b: "x2 = Line b" by blast
          show ?thesis
          proof (cases r2)
            case Nil
            then have "ins = map Line [a, b] @ [] \<and> length [a, b] \<le> 3 \<and> interrupted []"
              using c1 a c2 b by (simp add: interrupted_def)
            then show ?thesis by blast
          next
            case c3: (Cons x3 r3)
            show ?thesis
            proof (cases "\<exists>c. x3 = Line c")
              case False
              then have "ins = map Line [a, b] @ r2 \<and> length [a, b] \<le> 3 \<and> interrupted r2"
                using c1 a c2 b c3 by (cases x3) (simp_all add: interrupted_def)
              then show ?thesis by blast
            next
              case True
              then obtain c where c: "x3 = Line c" by blast
              show ?thesis
              proof (cases r3)
                case Nil
                then have "ins = map Line [a, b, c] @ [] \<and> length [a, b, c] \<le> 3 \<and> interrupted []"
                  using c1 a c2 b c3 c by (simp add: interrupted_def)
                then show ?thesis by blast
              next
                case c4: (Cons x4 r4)
                show ?thesis
                proof (cases "\<exists>d. x4 = Line d")
                  case False
                  then have "ins = map Line [a, b, c] @ r3 \<and> length [a, b, c] \<le> 3 \<and> interrupted r3"
                    using c1 a c2 b c3 c c4 by (cases x4) (simp_all add: interrupted_def)
                  then show ?thesis by blast
                next
                  case True
                  then obtain d where "x4 = Line d" by blast
                  then show ?thesis using c1 a c2 b c3 c c4 by simp
                qed
              qed
            qed
          qed
        qed
      qed
    qed
  qed
  then show ?thesis using short four by blast
qed

lemma ask_key_value_cases:
  obtains (asked) s1 tr where "ask_key_value env s = (Inr (), s1)"
      and "extra_models_file s1 = extra_models_file s" and "fs_fault s1 = fs_fault s"
      and "trace s1 = trace s @ tr" and "filter is_write tr = []"
      and "filter is_warning tr = []"
  | (cancelled) e s1 tr where "ask_key_value env s = (Inl e, s1)"
      and "e = KeyboardInterrupt \<or> e = EOFError"
      and "extra_models_file s1 = extra_models_file s" and "os_environ s1 = os_environ s"
      and "config_store s1 = config_store s"
      and "trace s1 = trace s @ tr" and "filter is_write tr = []"
  | (refused) e s1 tr where "ask_key_value env s = (Inl e, s1)"
      and "e \<noteq> KeyboardInterrupt" and "e \<noteq> EOFError"
      and "extra_models_file s1 = extra_models_file s" and "os_environ s1 = os_environ s"
      and "trace s1 = trace s @ tr" and "filter is_write tr = []"
proof (cases "truthy (os_environ s env)")
  case True
  then have "ask_key_value env s = (Inr (), s)" by (rule ask_key_value_set)
  then show ?thesis using asked [of s "[]"] by simp
next
  case False
  show ?thesis
  proof (cases "stdin s")
    case Nil
    with False have "ask_key_value env s =
        (Inl EOFError, s\<lparr>trace := trace s @ [Prompt (key_prompt env)]\<rparr>)"
      by (simp add: ask_key_value_def io_defs text_defs)
    then show ?thesis using cancelled [of EOFError _ "[Prompt (key_prompt env)]"] by simp
  next
    case (Cons x r)
    show ?thesis
    proof (cases x)
      case (Line v)
      show ?thesis
      proof (cases "v = []")
        case True
        with False Cons Line show ?thesis
          using asked [of _ "[Prompt (key_prompt env)]"] ask_key_value_blank [of s env r] by simp
      next
        case nonempty: False
        show ?thesis
        proof (cases "putenv_refuses env v")
          case None
          with nonempty False Cons Line show ?thesis
            using asked [of _ "[Prompt (key_prompt env), Set_config_value env v,
                                Environ_setitem env v]"]
              ask_key_value_answer [of s env v r] by simp
        next
          case (Some e)
          with nonempty False Cons Line show ?thesis
            using refused [of e _ "[Prompt (key_prompt env), Set_config_value env v,
                                    Environ_setitem env v]"]
              ask_key_value_refused [of s env v r e] putenv_refuses_exc [of env v e] by simp
        qed
      qed
    next
      case Interrupt
      with False Cons have "ask_key_value env s =
          (Inl KeyboardInterrupt, s\<lparr>trace := trace s @ [Prompt (key_prompt env)], stdin := r\<rparr>)"
        by (simp add: ask_key_value_def io_defs text_defs)
      then show ?thesis using cancelled [of KeyboardInterrupt _ "[Prompt (key_prompt env)]"] by simp
    next
      case End_of_input
      with False Cons have "ask_key_value env s =
          (Inl EOFError, s\<lparr>trace := trace s @ [Prompt (key_prompt env)], stdin := r\<rparr>)"
        by (simp add: ask_key_value_def io_defs text_defs)
      then show ?thesis using cancelled [of EOFError _ "[Prompt (key_prompt env)]"] by simp
    qed
  qed
qed

lemma flow_tail_cancelled:
  assumes "ask_key_value env s = (Inl e, s1)" and "e = KeyboardInterrupt \<or> e = EOFError"
  shows "flow_tail env k c s =
    (Inr False, s1\<lparr>trace := trace s1 @ [Emit_warning cancelled_message]\<rparr>)"
  using assms
  by (auto simp add: flow_tail_def return_def bind_def seq_def try_except_def log_def
        emit_warning_def)


lemma flow_tail_refused:
  assumes "ask_key_value env s = (Inl e, s1)" and "e \<noteq> KeyboardInterrupt" and "e \<noteq> EOFError"
  shows "flow_tail env k c s = (Inl e, s1)"
  using assms
  by (simp add: flow_tail_def return_def bind_def seq_def try_except_def)

lemma flow_True_inv:
  assumes "prompt_custom_flow s = (Inr True, s')"
  obtains url mid env ctx rest d tr where
    "stdin s = Line url # Line mid # Line env # Line ctx # rest"
    and "url \<noteq> []" and "mid \<noteq> []" and "env \<noteq> []"
    and "start_dict (extra_models_file s) = Some d" and "fs_fault s = None"
    and "extra_models_file s' =
           Holds (JDict (dict_setitem d (''custom-'' @ mid)
                    (model_config url mid env (context_length_of ctx))))"
    and "trace s' = trace s @ tr @
           save_trace (JDict (dict_setitem d (''custom-'' @ mid)
                         (model_config url mid env (context_length_of ctx)))) (''custom-'' @ mid)"
    and "filter is_warning tr = []"
proof (cases "stdin s" rule: stdin_shape)
  case (short ls rest)
  then have "fst (prompt_custom_flow s) = Inr False"
    using flow_cancelled [of s ls rest] by simp
  with assms show ?thesis by simp
next
  case (four url mid env ctx rest)
  have ne: "url \<noteq> [] \<and> mid \<noteq> [] \<and> env \<noteq> []"
  proof (rule ccontr)
    assume "\<not> (url \<noteq> [] \<and> mid \<noteq> [] \<and> env \<noteq> [])"
    then consider "url = []" | "mid = []" | "env = []" by blast
    then have "fst (prompt_custom_flow s) = Inr False"
    proof cases
      case 1
      with four show ?thesis using flow_empty [of s "[]" "Line mid # Line env # Line ctx # rest"] by simp
    next
      case 2
      with four show ?thesis using flow_empty [of s "[url]" "Line env # Line ctx # rest"] by simp
    next
      case 3
      with four show ?thesis using flow_empty [of s "[url, mid]" "Line ctx # rest"] by simp
    qed
    with assms show False by simp
  qed
  define k where "k = ''custom-'' @ mid"
  define c where "c = model_config url mid env (context_length_of ctx)"
  define s4 where "s4 = s\<lparr>trace := trace s @ [Emit_info intro_message, Prompt url_prompt,
                        Prompt model_prompt, Prompt env_prompt, Prompt ctx_prompt],
                      stdin := rest\<rparr>"
  have tail: "flow_tail env k c s4 = (Inr True, s')"
    using assms flow_four_lines [OF four] ne by (simp add: k_def c_def s4_def)
  show ?thesis
  proof (cases env s4 rule: ask_key_value_cases)
    case (cancelled e s1 tr)
    then show ?thesis using tail flow_tail_cancelled [of env s4 e s1 k c] by simp
  next
    case (refused e s1 tr)
    then show ?thesis using tail flow_tail_refused [of env s4 e s1 k c] by simp
  next
    case (asked s1 tr)
    from asked(1) have saves: "(case save_config k c s1 of (Inl e, s2) \<Rightarrow> (Inl e, s2)
                                | (Inr _, s2) \<Rightarrow> (Inr True, s2)) = (Inr True, s')"
      using tail flow_tail_saves [of env s4 s1 k c] by simp
    then have sv: "save_config k c s1 = (Inr (), s')"
      by (auto split: prod.splits sum.splits)
    then obtain d where d: "start_dict (extra_models_file s1) = Some d" and nf: "fs_fault s1 = None"
      using save_config_Inr [of k c s1 "()" s'] by blast
    have s': "s' = s1\<lparr>extra_models_file := Holds (JDict (dict_setitem d k c)),
                      trace := trace s1 @ save_trace (JDict (dict_setitem d k c)) k\<rparr>"
      using save_config_ok [OF d nf, of k c] sv by simp
    have "trace s' = trace s @ ([Emit_info intro_message, Prompt url_prompt,
              Prompt model_prompt, Prompt env_prompt, Prompt ctx_prompt] @ tr) @
              save_trace (JDict (dict_setitem d k c)) k"
      using s' asked(4) by (simp add: s4_def)
    moreover have "extra_models_file s' = Holds (JDict (dict_setitem d k c))"
      using s' by simp
    moreover have "filter is_warning ([Emit_info intro_message, Prompt url_prompt,
              Prompt model_prompt, Prompt env_prompt, Prompt ctx_prompt] @ tr) = []"
      using asked(6) by simp
    moreover have "start_dict (extra_models_file s) = Some d" "fs_fault s = None"
      using d nf asked(2,3) by (simp_all add: s4_def)
    ultimately show ?thesis
      using that [of url mid env ctx rest d] four ne by (simp add: k_def c_def)
  qed
qed

lemma picker_True_inv:
  assumes "interactive_model_picker s = (Inr True, s')"
  obtains r where "first_key (key_events s) = Key_enter # r"
    and "prompt_custom_flow (confirmed_state s r) = (Inr True, s')"
proof (cases "key_events s" rule: first_key_cases)
  case closed
  then show ?thesis using assms picker_closed [of s] by simp
next
  case (enter r)
  then show ?thesis using assms picker_enter [of s r] that by simp
next
  case (ctrl_c r)
  then show ?thesis using assms picker_ctrl_c [of s r] by simp
qed

lemma picker_saved:
  assumes "interactive_model_picker s = (Inr True, s')"
  obtains url mid env ctx rest d tr where
    "stdin s = Line url # Line mid # Line env # Line ctx # rest"
    and "url \<noteq> []" and "mid \<noteq> []" and "env \<noteq> []"
    and "start_dict (extra_models_file s) = Some d" and "fs_fault s = None"
    and "extra_models_file s' =
           Holds (JDict (dict_setitem d (''custom-'' @ mid)
                    (model_config url mid env (context_length_of ctx))))"
    and "trace s' = trace s @ tr @
           save_trace (JDict (dict_setitem d (''custom-'' @ mid)
                         (model_config url mid env (context_length_of ctx)))) (''custom-'' @ mid)"
    and "filter is_warning tr = []"
proof -
  from assms obtain r where "prompt_custom_flow (confirmed_state s r) = (Inr True, s')"
    by (rule picker_True_inv)
  then show ?thesis
  proof (rule flow_True_inv)
    fix url mid env ctx rest d tr
    assume "stdin (confirmed_state s r) = Line url # Line mid # Line env # Line ctx # rest"
      "url \<noteq> []" "mid \<noteq> []" "env \<noteq> []"
      "start_dict (extra_models_file (confirmed_state s r)) = Some d"
      "fs_fault (confirmed_state s r) = None"
      "extra_models_file s' =
           Holds (JDict (dict_setitem d (''custom-'' @ mid)
                    (model_config url mid env (context_length_of ctx))))"
      "trace s' = trace (confirmed_state s r) @ tr @
           save_trace (JDict (dict_setitem d (''custom-'' @ mid)
                         (model_config url mid env (context_length_of ctx)))) (''custom-'' @ mid)"
      "filter is_warning tr = []"
    then show ?thesis
      using that [of url mid env ctx rest d "display_trace @ tr"]
      by (simp add: confirmed_state_simps display_trace_def)
  qed
qed

lemma saved_entry_setitem:
  "extra_models_file s = Holds (JDict (dict_setitem d k c)) \<Longrightarrow> saved_entry s k = Some c"
  by (simp add: saved_entry_def dict_get_setitem_same)

lemma picker_no_warning:
  assumes "interactive_model_picker s = (Inr True, s')"
  shows "filter is_warning (trace s') = filter is_warning (trace s)"
  using assms
proof (rule picker_saved)
  fix url mid env ctx rest d tr
  assume "trace s' = trace s @ tr @
           save_trace (JDict (dict_setitem d (''custom-'' @ mid)
                         (model_config url mid env (context_length_of ctx)))) (''custom-'' @ mid)"
    and "filter is_warning tr = []"
  then show ?thesis by (simp add: save_trace_def)
qed

lemma run_ctrl_c:
  assumes "result (self s) \<noteq> Some ''add_custom''" and "providers (self s) \<noteq> []"
    and "first_key (key_events s) = Key_ctrl_c # r"
  shows "fst (run s) = Inr False
       \<and> extra_models_file (snd (run s)) = extra_models_file s
       \<and> stdin (snd (run s)) = stdin s
       \<and> trace (snd (run s)) = trace s @ display_trace"
  using assms
  by (cases "providers (self s)")
     (simp_all add: run_def seq_def bind_def try_finally_def make_controls_def log_def
        set_awaiting_user_input_def stdout_write_def stdout_flush_def get_result_def
        return_def app_run_def update_display_def render_provider_list_def
        app_run_keys_ctrl_c display_trace_def)

subsection \<open>The claims about the flow\<close>

lemmas eval_defs = typed_def example_state_def interactive_model_picker_def run_def
  prompt_custom_flow_def save_config_def ask_key_value_def update_display_def app_run_def
  make_controls_def get_result_def io_defs is_Exception_def truthy_def init_menu_def
  render_provider_list_def first_key_def interrupted_def saved_entry_def entry_field_def
  dict_get_def model_config_def context_length_of_def putenv_refuses_def

lemmas py_int_defs = py_int_def code_points_def to_ascii_def unicode_isspace_def
  unicode_decimal_def decimal_zeros_def char_of_eq_iff ascii_int_def py_strip_def
  py_isspace_def py_nat_def is_digit_def digit_value_def int_max_str_digits_def

text \<open>
  C1. The flow started by \<^verbatim>\<open>interactive_model_picker\<close> returns true only after a save: the
  file then holds a mapping with the new entry under \<open>custom-<model id>\<close>, and the last calls
  in the trace are those of the save. Every cancellation returns false and writes nothing:
  Ctrl-C as the first bound key of the display phase ends the flow there, with no prompt
  and the file, the environment and the input untouched; an interrupt or the end of the
  input at any of the five prompts returns false; so does an empty answer to one of the
  first three prompts. \<^verbatim>\<open>run\<close> itself, on any menu that has a provider and whose
  \<^verbatim>\<open>result\<close> is not already \<open>"add_custom"\<close>, answers Ctrl-C with false after the display
  phase alone.
\<close>

theorem flow_returns_true_only_if_saved:
  "(interactive_model_picker s = (Inr True, s') \<longrightarrow>
      (\<exists>url mid env n d tr.
          extra_models_file s' = Holds (JDict d)
        \<and> dict_get d (''custom-'' @ mid) = Some (model_config url mid env n)
        \<and> trace s' = trace s @ tr @ save_trace (JDict d) (''custom-'' @ mid)))
   \<and> (first_key (key_events s) = Key_ctrl_c # r \<longrightarrow>
        interactive_model_picker s =
          (Inr False, s\<lparr>self := shown_menu, key_events := r,
                         trace := trace s @ display_trace\<rparr>))
   \<and> (first_key (key_events s) = Key_enter # r \<and> interrupted rest
        \<and> ((\<exists>ls. stdin s = map Line ls @ rest \<and> length ls \<le> 3)
           \<or> (\<exists>url mid env ctx. stdin s = Line url # Line mid # Line env # Line ctx # rest
                \<and> \<not> truthy (os_environ s env))) \<longrightarrow>
        fst (interactive_model_picker s) = Inr False
        \<and> extra_models_file (snd (interactive_model_picker s)) = extra_models_file s
        \<and> filter is_write (trace (snd (interactive_model_picker s))) = filter is_write (trace s))
   \<and> (first_key (key_events s) = Key_enter # r \<and> length ls \<le> 2
        \<and> stdin s = map Line ls @ Line [] # rest \<longrightarrow>
        fst (interactive_model_picker s) = Inr False
        \<and> extra_models_file (snd (interactive_model_picker s)) = extra_models_file s
        \<and> filter is_write (trace (snd (interactive_model_picker s))) = filter is_write (trace s))
   \<and> (result (self s) \<noteq> Some ''add_custom'' \<and> providers (self s) \<noteq> []
        \<and> first_key (key_events s) = Key_ctrl_c # r \<longrightarrow>
        fst (run s) = Inr False
        \<and> extra_models_file (snd (run s)) = extra_models_file s
        \<and> stdin (snd (run s)) = stdin s
        \<and> trace (snd (run s)) = trace s @ display_trace)"
  (is "?saved \<and> ?display \<and> ?interrupt \<and> ?empty \<and> ?run")
proof (intro conjI)
  show ?saved
  proof
    assume "interactive_model_picker s = (Inr True, s')"
    then show "\<exists>url mid env n d tr.
          extra_models_file s' = Holds (JDict d)
        \<and> dict_get d (''custom-'' @ mid) = Some (model_config url mid env n)
        \<and> trace s' = trace s @ tr @ save_trace (JDict d) (''custom-'' @ mid)"
    proof (rule picker_saved)
      fix url mid env ctx rest d tr
      assume "extra_models_file s' =
           Holds (JDict (dict_setitem d (''custom-'' @ mid)
                    (model_config url mid env (context_length_of ctx))))"
        and "trace s' = trace s @ tr @
           save_trace (JDict (dict_setitem d (''custom-'' @ mid)
                         (model_config url mid env (context_length_of ctx)))) (''custom-'' @ mid)"
      then show ?thesis
        using dict_get_setitem_same
          [of d "''custom-'' @ mid" "model_config url mid env (context_length_of ctx)"]
        by blast
    qed
  qed
  show ?display
    by (simp add: picker_ctrl_c)
  show ?interrupt
  proof (intro impI, elim conjE disjE exE)
    fix lines
    assume "first_key (key_events s) = Key_enter # r" "interrupted rest"
      "stdin s = map Line lines @ rest" "length lines \<le> 3"
    then show "fst (interactive_model_picker s) = Inr False
        \<and> extra_models_file (snd (interactive_model_picker s)) = extra_models_file s
        \<and> filter is_write (trace (snd (interactive_model_picker s))) = filter is_write (trace s)"
      using flow_cancelled [of "confirmed_state s r" lines rest]
      by (simp add: picker_enter confirmed_state_simps display_trace_def)
  next
    fix url mid env ctx
    assume enter: "first_key (key_events s) = Key_enter # r" and int: "interrupted rest"
      and ins: "stdin s = Line url # Line mid # Line env # Line ctx # rest"
      and unset: "\<not> truthy (os_environ s env)"
    show "fst (interactive_model_picker s) = Inr False
        \<and> extra_models_file (snd (interactive_model_picker s)) = extra_models_file s
        \<and> filter is_write (trace (snd (interactive_model_picker s))) = filter is_write (trace s)"
    proof (cases "url \<noteq> [] \<and> mid \<noteq> [] \<and> env \<noteq> []")
      case False
      then consider "url = []" | "mid = []" | "env = []" by blast
      then show ?thesis
      proof cases
        case 1
        with ins enter show ?thesis 
          using flow_empty [of "confirmed_state s r" "[]" "Line mid # Line env # Line ctx # rest"]
          by (simp add: picker_enter confirmed_state_simps display_trace_def)
      next
        case 2
        with ins enter show ?thesis 
          using flow_empty [of "confirmed_state s r" "[url]" "Line env # Line ctx # rest"]
          by (simp add: picker_enter confirmed_state_simps display_trace_def)
      next
        case 3
        with ins enter show ?thesis 
          using flow_empty [of "confirmed_state s r" "[url, mid]" "Line ctx # rest"]
          by (simp add: picker_enter confirmed_state_simps display_trace_def)
      qed
    next
      case True
      define s4 where "s4 = (confirmed_state s r)\<lparr>trace := trace (confirmed_state s r) @
            [Emit_info intro_message, Prompt url_prompt, Prompt model_prompt,
             Prompt env_prompt, Prompt ctx_prompt], stdin := rest\<rparr>"
      define k where "k = ''custom-'' @ mid"
      define c where "c = model_config url mid env (context_length_of ctx)"
      have picker: "interactive_model_picker s = flow_tail env k c s4"
        using enter ins True flow_four_lines [of "confirmed_state s r" url mid env ctx rest]
        by (simp add: picker_enter confirmed_state_simps s4_def k_def c_def)
      have ask: "ask_key_value env s4 =
          (Inl (if rest = [] \<or> hd rest = End_of_input then EOFError else KeyboardInterrupt),
           s4\<lparr>trace := trace s4 @ [Prompt (key_prompt env)], stdin := tl rest\<rparr>)"
        using unset int
        by (auto simp add: ask_key_value_def io_defs text_defs s4_def confirmed_state_simps
              interrupted_def split: list.splits answer.splits)
      show ?thesis
        unfolding picker
        using flow_tail_cancelled [OF ask, of k c]
        by (simp add: s4_def confirmed_state_simps display_trace_def)
    qed
  qed
  show ?empty
    using flow_empty [of "confirmed_state s r" ls rest]
    by (simp add: picker_enter confirmed_state_simps display_trace_def)
  show ?run
    using run_ctrl_c [of s r] by blast
qed


theorem flow_returns_true_only_if_saved_witness:
  "fst (interactive_model_picker
          (typed [Line ''http://localhost:8000/v1'', Line ''llama-3'', Line ''FOO_KEY'', Line []]))
     = Inr True
   \<and> saved_entry (snd (interactive_model_picker
          (typed [Line ''http://localhost:8000/v1'', Line ''llama-3'', Line ''FOO_KEY'', Line []])))
        ''custom-llama-3''
     = Some (model_config ''http://localhost:8000/v1'' ''llama-3'' ''FOO_KEY'' 128000)
   \<and> first_key (key_events (example_state Missing None Map.empty [Key_other, Key_ctrl_c] []))
     = [Key_ctrl_c]
   \<and> fst (interactive_model_picker (example_state Missing None Map.empty [Key_other, Key_ctrl_c] []))
     = Inr False
   \<and> extra_models_file
       (snd (interactive_model_picker (example_state Missing None Map.empty [Key_other, Key_ctrl_c] [])))
     = Missing
   \<and> first_key (key_events (typed [Line ''http://localhost:8000/v1'', Interrupt])) = [Key_enter]
   \<and> interrupted [Interrupt]
   \<and> fst (interactive_model_picker (typed [Line ''http://localhost:8000/v1'', Interrupt]))
     = Inr False
   \<and> fst (interactive_model_picker (typed [Line ''http://localhost:8000/v1'', Line []]))
     = Inr False"
  using flow_returns_true_only_if_saved
    [of "typed [Line ''http://localhost:8000/v1'', Line ''llama-3'', Line ''FOO_KEY'', Line []]"
        "snd (interactive_model_picker
           (typed [Line ''http://localhost:8000/v1'', Line ''llama-3'', Line ''FOO_KEY'', Line []]))"
        "[]" "[]" "[]"]
    flow_returns_true_only_if_saved
    [of "example_state Missing None Map.empty [Key_other, Key_ctrl_c] []" undefined "[]" "[]" "[]"]
    flow_returns_true_only_if_saved
    [of "typed [Line ''http://localhost:8000/v1'', Interrupt]" undefined "[]" "[Interrupt]"
        "[''http://localhost:8000/v1'']"]
    flow_returns_true_only_if_saved
    [of "typed [Line ''http://localhost:8000/v1'', Line []]" undefined "[]" "[]"
        "[''http://localhost:8000/v1'']"]
  by (simp add: eval_defs)

text \<open>
  \<^verbatim>\<open>run\<close> reads \<^verbatim>\<open>self.result\<close>, which only \<^verbatim>\<open>__init__\<close> sets to \<^verbatim>\<open>None\<close>. On a menu
  object that kept \<open>"add_custom"\<close> from an earlier \<^verbatim>\<open>run\<close>, Ctrl-C is followed by the
  prompts; \<^verbatim>\<open>interactive_model_picker\<close> makes a new menu for every flow, so this does not
  arise there.
\<close>

lemma run_reused_menu:
  assumes "result (self s) = Some ''add_custom''" and "providers (self s) \<noteq> []"
    and "first_key (key_events s) = Key_ctrl_c # r"
  shows "\<exists>s3. run s = prompt_custom_flow s3 \<and> stdin s3 = stdin s
            \<and> trace s3 = trace s @ display_trace"
proof -
  obtain p ps where ps: "providers (self s) = p # ps"
    using assms(2) by (cases "providers (self s)") simp_all
  define s3 where "s3 =
      s\<lparr>self := (self s)\<lparr>menu_control :=
                  render_navigation_hints
                    [([], '' Providers'' @ [CHR 0x0A, CHR 0x0A]),
                     (''fg:ansicyan bold'', '' > '' @ provider_name p),
                     ([], [CHR 0x0A]), ([], [CHR 0x0A])],
                preview_control := render_model_details\<rparr>,
         key_events := r, trace := trace s @ display_trace\<rparr>"
  have "run s = prompt_custom_flow s3"
    using assms(1,3) ps
    by (simp add: run_def seq_def bind_def try_finally_def make_controls_def log_def
        set_awaiting_user_input_def stdout_write_def stdout_flush_def get_result_def
        return_def app_run_def update_display_def render_provider_list_def
        app_run_keys_ctrl_c display_trace_def s3_def)
  moreover have "stdin s3 = stdin s" and "trace s3 = trace s @ display_trace"
    by (simp_all add: s3_def)
  ultimately show ?thesis by blast
qed

text \<open>
  C3. After Enter, an empty answer to the first, second or third prompt ends the flow with
  false: the file, the environment and the configuration store are as before, and the
  trace ends with that prompt, so no directory is made and no file is opened or written.
\<close>

theorem empty_required_input_aborts:
  assumes "first_key (key_events s) = Key_enter # r"
  shows "(stdin s = Line [] # rest \<longrightarrow>
            fst (interactive_model_picker s) = Inr False
          \<and> extra_models_file (snd (interactive_model_picker s)) = extra_models_file s
          \<and> os_environ (snd (interactive_model_picker s)) = os_environ s
          \<and> config_store (snd (interactive_model_picker s)) = config_store s
          \<and> trace (snd (interactive_model_picker s)) =
              trace s @ display_trace @ [Emit_info intro_message, Prompt url_prompt])
       \<and> (url \<noteq> [] \<and> stdin s = Line url # Line [] # rest \<longrightarrow>
            fst (interactive_model_picker s) = Inr False
          \<and> extra_models_file (snd (interactive_model_picker s)) = extra_models_file s
          \<and> os_environ (snd (interactive_model_picker s)) = os_environ s
          \<and> config_store (snd (interactive_model_picker s)) = config_store s
          \<and> trace (snd (interactive_model_picker s)) =
              trace s @ display_trace @
                [Emit_info intro_message, Prompt url_prompt, Prompt model_prompt])
       \<and> (url \<noteq> [] \<and> mid \<noteq> [] \<and> stdin s = Line url # Line mid # Line [] # rest \<longrightarrow>
            fst (interactive_model_picker s) = Inr False
          \<and> extra_models_file (snd (interactive_model_picker s)) = extra_models_file s
          \<and> os_environ (snd (interactive_model_picker s)) = os_environ s
          \<and> config_store (snd (interactive_model_picker s)) = config_store s
          \<and> trace (snd (interactive_model_picker s)) =
              trace s @ display_trace @
                [Emit_info intro_message, Prompt url_prompt, Prompt model_prompt,
                 Prompt env_prompt])"
  using assms
  by (simp add: picker_enter confirmed_state_def flow_defs text_defs)

theorem empty_required_input_aborts_witness:
  "first_key (key_events (typed [Line []])) = [Key_enter]
   \<and> fst (interactive_model_picker (typed [Line []])) = Inr False
   \<and> extra_models_file (snd (interactive_model_picker (typed [Line []])))
       = Holds (JDict [(''a'', JNull)])
   \<and> fst (interactive_model_picker (typed [Line ''http://localhost:8000/v1'', Line []]))
       = Inr False
   \<and> fst (interactive_model_picker
            (typed [Line ''http://localhost:8000/v1'', Line ''llama-3'', Line []])) = Inr False
   \<and> trace (snd (interactive_model_picker
            (typed [Line ''http://localhost:8000/v1'', Line ''llama-3'', Line []])))
       = display_trace @ [Emit_info intro_message, Prompt url_prompt, Prompt model_prompt,
                          Prompt env_prompt]"
  using empty_required_input_aborts [of "typed [Line []]" "[]" "[]"]
    empty_required_input_aborts
      [of "typed [Line ''http://localhost:8000/v1'', Line []]" "[]" "[]"
          "''http://localhost:8000/v1''"]
    empty_required_input_aborts
      [of "typed [Line ''http://localhost:8000/v1'', Line ''llama-3'', Line []]" "[]" "[]"
          "''http://localhost:8000/v1''" "''llama-3''"]
  by (simp add: typed_def example_state_def first_key_def)


lemma picker_saved_entry:
  assumes "interactive_model_picker s = (Inr True, s')"
    and "stdin s = Line url # Line mid # Line env # Line ctx # rest"
  shows "saved_entry s' (''custom-'' @ mid) =
           Some (model_config url mid env (context_length_of ctx))"
  using assms(1)
proof (rule picker_saved)
  fix url' mid' env' ctx' rest' d tr
  assume "stdin s = Line url' # Line mid' # Line env' # Line ctx' # rest'"
    and "extra_models_file s' =
           Holds (JDict (dict_setitem d (''custom-'' @ mid')
                    (model_config url' mid' env' (context_length_of ctx'))))"
  with assms(2) show ?thesis
    by (simp add: saved_entry_setitem)
qed

lemma context_length_field:
  "entry_field ''context_length'' (Some (model_config url mid env n)) = Some (JInt n)"
  by (simp add: entry_field_def model_config_def dict_get_def)

lemma py_int_empty: "py_int [] = None"
  by (simp add: py_int_def code_points_def ascii_int_def py_strip_def)

text \<open>
  C6. In a flow that saves, the entry's \<open>context_length\<close> is 128000 when the fourth answer
  is blank, 128000 when \<^verbatim>\<open>int\<close> refuses it (as it refuses \<open>"abc"\<close>), and 50000 when it
  is \<open>"50000"\<close>; the flow has emitted no warning.
\<close>

theorem context_length_default_and_parse:
  assumes "interactive_model_picker s = (Inr True, s')"
    and "stdin s = Line url # Line mid # Line env # Line ctx # rest"
  shows "(ctx = [] \<longrightarrow>
            entry_field ''context_length'' (saved_entry s' (''custom-'' @ mid))
              = Some (JInt 128000))
       \<and> (py_int ctx = None \<longrightarrow>
            entry_field ''context_length'' (saved_entry s' (''custom-'' @ mid))
              = Some (JInt 128000))
       \<and> (ctx = ''abc'' \<longrightarrow>
            entry_field ''context_length'' (saved_entry s' (''custom-'' @ mid))
              = Some (JInt 128000))
       \<and> (ctx = ''50000'' \<longrightarrow>
            entry_field ''context_length'' (saved_entry s' (''custom-'' @ mid))
              = Some (JInt 50000))
       \<and> filter is_warning (trace s') = filter is_warning (trace s)"
proof -
  have abc: "py_int ''abc'' = None"
    by (simp add: py_int_defs)
  have fifty: "py_int ''50000'' = Some 50000"
    by (simp add: py_int_defs)
  show ?thesis
    using picker_saved_entry [OF assms] picker_no_warning [OF assms(1)] abc fifty
    by (auto simp add: context_length_field context_length_of_def)
qed

theorem context_length_default_and_parse_witness:
  "fst (interactive_model_picker
          (typed [Line ''http://localhost:8000/v1'', Line ''llama-3'', Line ''FOO_KEY'',
                  Line ''abc''])) = Inr True
   \<and> entry_field ''context_length''
        (saved_entry (snd (interactive_model_picker
          (typed [Line ''http://localhost:8000/v1'', Line ''llama-3'', Line ''FOO_KEY'',
                  Line ''abc''])))
           ''custom-llama-3'') = Some (JInt 128000)
   \<and> fst (interactive_model_picker
          (typed [Line ''http://localhost:8000/v1'', Line ''llama-3'', Line ''FOO_KEY'',
                  Line ''50000''])) = Inr True
   \<and> entry_field ''context_length''
        (saved_entry (snd (interactive_model_picker
          (typed [Line ''http://localhost:8000/v1'', Line ''llama-3'', Line ''FOO_KEY'',
                  Line ''50000''])))
           ''custom-llama-3'') = Some (JInt 50000)"
proof -
  define A where "A = typed [Line ''http://localhost:8000/v1'', Line ''llama-3'',
                             Line ''FOO_KEY'', Line ''abc'']"
  define B where "B = typed [Line ''http://localhost:8000/v1'', Line ''llama-3'',
                             Line ''FOO_KEY'', Line ''50000'']"
  have a: "fst (interactive_model_picker A) = Inr True"
    by (simp add: A_def eval_defs)
  have b: "fst (interactive_model_picker B) = Inr True"
    by (simp add: B_def eval_defs)
  have a_in: "stdin A = Line ''http://localhost:8000/v1'' # Line ''llama-3'' # Line ''FOO_KEY''
                          # Line ''abc'' # []"
    by (simp add: A_def typed_def example_state_def)
  have b_in: "stdin B = Line ''http://localhost:8000/v1'' # Line ''llama-3'' # Line ''FOO_KEY''
                          # Line ''50000'' # []"
    by (simp add: B_def typed_def example_state_def)
  have a_run: "interactive_model_picker A = (Inr True, snd (interactive_model_picker A))"
    using a by (metis prod.collapse)
  have b_run: "interactive_model_picker B = (Inr True, snd (interactive_model_picker B))"
    using b by (metis prod.collapse)
  have "entry_field ''context_length''
          (saved_entry (snd (interactive_model_picker A)) (''custom-'' @ ''llama-3''))
        = Some (JInt 128000)"
    using context_length_default_and_parse [OF a_run a_in] by blast
  moreover have "entry_field ''context_length''
          (saved_entry (snd (interactive_model_picker B)) (''custom-'' @ ''llama-3''))
        = Some (JInt 50000)"
    using context_length_default_and_parse [OF b_run b_in] by blast
  ultimately show ?thesis
    using a b by (simp add: A_def B_def)
qed

text \<open>
  C9. In a flow that saves, whatever integer \<^verbatim>\<open>int\<close> reads from the fourth answer is the
  entry's \<open>context_length\<close>, with no check of its range; \<open>"-1"\<close> and \<open>"0"\<close> are read as
  \<open>-1\<close> and \<open>0\<close>.
\<close>

theorem context_length_any_integer:
  "(interactive_model_picker s = (Inr True, s')
      \<and> stdin s = Line url # Line mid # Line env # Line ctx # rest
      \<and> py_int ctx = Some n \<longrightarrow>
        entry_field ''context_length'' (saved_entry s' (''custom-'' @ mid)) = Some (JInt n))
   \<and> py_int ''-1'' = Some (- 1)
   \<and> py_int ''0'' = Some 0"
proof (intro conjI impI)
  assume h: "interactive_model_picker s = (Inr True, s')
      \<and> stdin s = Line url # Line mid # Line env # Line ctx # rest \<and> py_int ctx = Some n"
  then have "ctx \<noteq> []"
    using py_int_empty by auto
  with h show "entry_field ''context_length'' (saved_entry s' (''custom-'' @ mid)) = Some (JInt n)"
    using picker_saved_entry [of s s' url mid env ctx rest]
    by (simp add: context_length_field context_length_of_def)
next
  show "py_int ''-1'' = Some (- 1)"
    by (simp add: py_int_defs)
next
  show "py_int ''0'' = Some 0"
    by (simp add: py_int_defs)
qed

theorem context_length_any_integer_witness:
  "fst (interactive_model_picker
          (typed [Line ''http://localhost:8000/v1'', Line ''llama-3'', Line ''FOO_KEY'',
                  Line ''-1''])) = Inr True
   \<and> py_int ''-1'' = Some (- 1)
   \<and> entry_field ''context_length''
        (saved_entry (snd (interactive_model_picker
          (typed [Line ''http://localhost:8000/v1'', Line ''llama-3'', Line ''FOO_KEY'',
                  Line ''-1''])))
           ''custom-llama-3'') = Some (JInt (- 1))"
proof -
  define A where "A = typed [Line ''http://localhost:8000/v1'', Line ''llama-3'',
                             Line ''FOO_KEY'', Line ''-1'']"
  have a: "fst (interactive_model_picker A) = Inr True"
    by (simp add: A_def eval_defs)
  have a_in: "stdin A = Line ''http://localhost:8000/v1'' # Line ''llama-3'' # Line ''FOO_KEY''
                          # Line ''-1'' # []"
    by (simp add: A_def typed_def example_state_def)
  have a_run: "interactive_model_picker A = (Inr True, snd (interactive_model_picker A))"
    using a by (metis prod.collapse)
  note inst = context_length_any_integer
      [of A "snd (interactive_model_picker A)" "''http://localhost:8000/v1''" "''llama-3''"
          "''FOO_KEY''" "''-1''" "[]" "- 1"]
  have p: "py_int ''-1'' = Some (- 1)"
    using inst by blast
  have "entry_field ''context_length''
          (saved_entry (snd (interactive_model_picker A)) (''custom-'' @ ''llama-3''))
        = Some (JInt (- 1))"
    using inst a_run a_in p by blast
  then show ?thesis
    using a p by (simp add: A_def)
qed

text \<open>
  \<^verbatim>\<open>int\<close> reads the decimal digits and the white space of Unicode, and on ASCII only the
  six characters of C as white space: full-width \<open>123\<close> is 123, a no-break space before
  \<open>7\<close> is dropped, a unit separator before \<open>7\<close> is refused.
\<close>

lemma py_int_fullwidth:
  "py_int [CHR 0xEF, CHR 0xBC, CHR 0x91, CHR 0xEF, CHR 0xBC, CHR 0x92, CHR 0xEF, CHR 0xBC, CHR 0x93]
     = Some 123"
  by (simp add: py_int_defs)

lemma py_int_no_break_space: "py_int ([CHR 0xC2, CHR 0xA0] @ ''7'') = Some 7"
  by (simp add: py_int_defs)

lemma py_int_unit_separator: "py_int ([CHR 0x1F] @ ''7'') = None"
  by (simp add: py_int_defs)

text \<open>
  C7. A flow that returns true has stored, under the key \<open>custom-<model id>\<close>, the entry
  with type \<open>custom_openai\<close>, the model id as name, the endpoint made of the url and of
  \<open>$\<close> followed by the name of the environment variable, the integer context length
  (128000 for a blank answer) and the settings \<open>temperature\<close> and \<open>top_p\<close>; its last calls
  are the writing of the whole mapping with \<^verbatim>\<open>json.dump\<close> at \<^verbatim>\<open>indent=4\<close> and the
  confirmation.
\<close>

theorem saved_entry_shape:
  assumes "interactive_model_picker s = (Inr True, s')"
  shows "\<exists>url mid env ctx rest d tr.
           stdin s = Line url # Line mid # Line env # Line ctx # rest
         \<and> extra_models_file s' = Holds (JDict d)
         \<and> dict_get d (''custom-'' @ mid) =
             Some (JDict [(''type'', JStr ''custom_openai''),
                          (''name'', JStr mid),
                          (''custom_endpoint'',
                             JDict [(''url'', JStr url), (''api_key'', JStr (CHR ''$'' # env))]),
                          (''context_length'', JInt (context_length_of ctx)),
                          (''supported_settings'', JList [JStr ''temperature'', JStr ''top_p''])])
         \<and> context_length_of [] = 128000
         \<and> trace s' = trace s @ tr @
             [Mkdir_parents, Open_write, Json_dump (JDict d) 4,
              Emit_info (added_message (''custom-'' @ mid))]"
  using assms
proof (rule picker_saved)
  fix url mid env ctx rest d tr
  assume "stdin s = Line url # Line mid # Line env # Line ctx # rest"
    and "extra_models_file s' =
           Holds (JDict (dict_setitem d (''custom-'' @ mid)
                    (model_config url mid env (context_length_of ctx))))"
    and "trace s' = trace s @ tr @
           save_trace (JDict (dict_setitem d (''custom-'' @ mid)
                         (model_config url mid env (context_length_of ctx)))) (''custom-'' @ mid)"
  then have "stdin s = Line url # Line mid # Line env # Line ctx # rest
         \<and> extra_models_file s' = Holds (JDict (dict_setitem d (''custom-'' @ mid)
                    (model_config url mid env (context_length_of ctx))))
         \<and> dict_get (dict_setitem d (''custom-'' @ mid)
                    (model_config url mid env (context_length_of ctx))) (''custom-'' @ mid) =
             Some (JDict [(''type'', JStr ''custom_openai''),
                          (''name'', JStr mid),
                          (''custom_endpoint'',
                             JDict [(''url'', JStr url), (''api_key'', JStr (CHR ''$'' # env))]),
                          (''context_length'', JInt (context_length_of ctx)),
                          (''supported_settings'', JList [JStr ''temperature'', JStr ''top_p''])])
         \<and> context_length_of [] = 128000
         \<and> trace s' = trace s @ tr @
             [Mkdir_parents, Open_write, Json_dump (JDict (dict_setitem d (''custom-'' @ mid)
                    (model_config url mid env (context_length_of ctx)))) 4,
              Emit_info (added_message (''custom-'' @ mid))]"
    by (simp add: dict_get_setitem_same model_config_def save_trace_def context_length_of_def)
  then show ?thesis by blast
qed

theorem saved_entry_shape_witness:
  "fst (interactive_model_picker
          (typed [Line ''http://localhost:8000/v1'', Line ''llama-3'', Line ''FOO_KEY'', Line []]))
     = Inr True
   \<and> (\<exists>tr d. trace (snd (interactive_model_picker
          (typed [Line ''http://localhost:8000/v1'', Line ''llama-3'', Line ''FOO_KEY'', Line []])))
        = tr @ [Mkdir_parents, Open_write, Json_dump (JDict d) 4,
                Emit_info (added_message ''custom-llama-3'')])
   \<and> saved_entry (snd (interactive_model_picker
          (typed [Line ''http://localhost:8000/v1'', Line ''llama-3'', Line ''FOO_KEY'', Line []])))
        ''custom-llama-3''
     = Some (JDict [(''type'', JStr ''custom_openai''),
                    (''name'', JStr ''llama-3''),
                    (''custom_endpoint'',
                       JDict [(''url'', JStr ''http://localhost:8000/v1''),
                              (''api_key'', JStr ''$FOO_KEY'')]),
                    (''context_length'', JInt 128000),
                    (''supported_settings'', JList [JStr ''temperature'', JStr ''top_p''])])"
proof -
  define A where "A = typed [Line ''http://localhost:8000/v1'', Line ''llama-3'',
                             Line ''FOO_KEY'', Line []]"
  have a: "fst (interactive_model_picker A) = Inr True"
    by (simp add: A_def eval_defs)
  have a_in: "stdin A = Line ''http://localhost:8000/v1'' # Line ''llama-3'' # Line ''FOO_KEY''
                          # Line [] # []" and a_tr: "trace A = []"
    by (simp_all add: A_def typed_def example_state_def)
  have a_run: "interactive_model_picker A = (Inr True, snd (interactive_model_picker A))"
    using a by (metis prod.collapse)
  from saved_entry_shape [OF a_run] obtain url mid env ctx rest d tr where
    "stdin A = Line url # Line mid # Line env # Line ctx # rest"
    "extra_models_file (snd (interactive_model_picker A)) = Holds (JDict d)"
    "dict_get d (''custom-'' @ mid) =
             Some (JDict [(''type'', JStr ''custom_openai''),
                          (''name'', JStr mid),
                          (''custom_endpoint'',
                             JDict [(''url'', JStr url), (''api_key'', JStr (CHR ''$'' # env))]),
                          (''context_length'', JInt (context_length_of ctx)),
                          (''supported_settings'', JList [JStr ''temperature'', JStr ''top_p''])])"
    "context_length_of [] = 128000"
    "trace (snd (interactive_model_picker A)) = trace A @ tr @
             [Mkdir_parents, Open_write, Json_dump (JDict d) 4,
              Emit_info (added_message (''custom-'' @ mid))]"
    by blast
  with a_in a_tr have
    "(\<exists>tr d. trace (snd (interactive_model_picker A))
        = tr @ [Mkdir_parents, Open_write, Json_dump (JDict d) 4,
                Emit_info (added_message ''custom-llama-3'')])"
    "saved_entry (snd (interactive_model_picker A)) ''custom-llama-3''
     = Some (JDict [(''type'', JStr ''custom_openai''),
                    (''name'', JStr ''llama-3''),
                    (''custom_endpoint'',
                       JDict [(''url'', JStr ''http://localhost:8000/v1''),
                              (''api_key'', JStr ''$FOO_KEY'')]),
                    (''context_length'', JInt 128000),
                    (''supported_settings'', JList [JStr ''temperature'', JStr ''top_p''])])"
    by (auto simp add: saved_entry_def)
  then show ?thesis using a by (simp add: A_def)
qed

lemma ask_key_value_unset_prompts:
  assumes "\<not> truthy (os_environ s env)"
  shows "filter is_prompt (trace (snd (ask_key_value env s))) =
           filter is_prompt (trace s) @ [Prompt (key_prompt env)]"
  using assms
  by (auto simp add: ask_key_value_def io_defs text_defs Let_def
        split: list.splits answer.splits option.splits)

lemma flow_tail_frame:
  "os_environ (snd (flow_tail env k c s)) = os_environ (snd (ask_key_value env s)) \<and>
   config_store (snd (flow_tail env k c s)) = config_store (snd (ask_key_value env s)) \<and>
   stdin (snd (flow_tail env k c s)) = stdin (snd (ask_key_value env s)) \<and>
   filter is_prompt (trace (snd (flow_tail env k c s))) =
     filter is_prompt (trace (snd (ask_key_value env s)))"
proof (cases env s rule: ask_key_value_cases)
  case (asked s1 tr)
  have "snd (flow_tail env k c s) = snd (save_config k c s1)"
    using flow_tail_saves [OF asked(1), of k c] by (auto split: prod.splits sum.splits)
  then show ?thesis
    using save_config_frame [of k c s1] asked(1) by simp
next
  case (cancelled e s1 tr)
  then show ?thesis
    using flow_tail_cancelled [of env s e s1 k c] by simp
next
  case (refused e s1 tr)
  then show ?thesis
    using flow_tail_refused [of env s e s1 k c] by simp
qed

lemma save_config_fails:
  assumes "start_dict (extra_models_file s) = Some d" and "fs_fault s = Some f"
  shows "save_config k c s =
    (Inl OSError,
     s\<lparr>extra_models_file := (if f = Dump_fails then Unparsable else extra_models_file s),
       trace := trace s @
         (case f of
            Mkdir_fails \<Rightarrow> [Mkdir_parents]
          | Open_fails \<Rightarrow> [Mkdir_parents, Open_write]
          | Dump_fails \<Rightarrow> [Mkdir_parents, Open_write, Json_dump (JDict (dict_setitem d k c)) 4])\<rparr>)"
  using assms
  by (cases f)
     (auto simp add: save_config_def io_defs is_Exception_def start_dict_def
        split: file_state.splits json.splits)


lemma truthy_iff: "truthy v \<longleftrightarrow> (\<exists>t. v = Some t \<and> t \<noteq> [])"
  by (cases v) (simp_all add: truthy_def)

lemma not_truthy_iff: "\<not> truthy v \<longleftrightarrow> v = None \<or> v = Some []"
  by (cases v) (simp_all add: truthy_def)

lemma picker_four_lines:
  assumes "first_key (key_events s) = Key_enter # r"
    and "stdin s = Line url # Line mid # Line env # Line ctx # rest"
    and "url \<noteq> []" and "mid \<noteq> []" and "env \<noteq> []"
  shows "interactive_model_picker s =
    flow_tail env (''custom-'' @ mid) (model_config url mid env (context_length_of ctx))
      ((confirmed_state s r)\<lparr>trace := trace s @ display_trace @
            [Emit_info intro_message, Prompt url_prompt, Prompt model_prompt,
             Prompt env_prompt, Prompt ctx_prompt],
          stdin := rest\<rparr>)"
  using assms flow_four_lines [of "confirmed_state s r" url mid env ctx rest]
  by (simp add: picker_enter confirmed_state_simps)

text \<open>
  C5, as amended. After Enter and four answers of which the first three are not empty:
  when the named variable has a value that is not empty, exactly the four prompts are
  asked, no further line is read and neither the environment nor the configuration store
  changes; when it is absent or set to the empty string, the fifth prompt is asked; an
  answer to it that is not empty, under a name and with a value that \<^verbatim>\<open>putenv\<close> accepts, is
  stored under the name in both the environment and the configuration store, a blank one
  changes neither. Whenever the flow returns true, the entry's \<open>api_key\<close> is \<open>$\<close>
  followed by the name.
\<close>

theorem key_value_prompt_only_without_value:
  assumes "first_key (key_events s) = Key_enter # r"
    and "stdin s = Line url # Line mid # Line env # Line ctx # rest"
    and "url \<noteq> []" and "mid \<noteq> []" and "env \<noteq> []"
  shows "((\<exists>t. os_environ s env = Some t \<and> t \<noteq> []) \<longrightarrow>
            filter is_prompt (trace (snd (interactive_model_picker s))) =
              filter is_prompt (trace s) @
                [Prompt url_prompt, Prompt model_prompt, Prompt env_prompt, Prompt ctx_prompt]
          \<and> stdin (snd (interactive_model_picker s)) = rest
          \<and> os_environ (snd (interactive_model_picker s)) = os_environ s
          \<and> config_store (snd (interactive_model_picker s)) = config_store s)
       \<and> (os_environ s env = None \<or> os_environ s env = Some [] \<longrightarrow>
            filter is_prompt (trace (snd (interactive_model_picker s))) =
              filter is_prompt (trace s) @
                [Prompt url_prompt, Prompt model_prompt, Prompt env_prompt, Prompt ctx_prompt,
                 Prompt (key_prompt env)])
       \<and> ((os_environ s env = None \<or> os_environ s env = Some [])
            \<and> rest = Line v # rest' \<and> v \<noteq> [] \<and> putenv_refuses env v = None \<longrightarrow>
            os_environ (snd (interactive_model_picker s)) = (os_environ s)(env \<mapsto> v)
          \<and> config_store (snd (interactive_model_picker s)) = (config_store s)(env \<mapsto> v))
       \<and> ((os_environ s env = None \<or> os_environ s env = Some [])
            \<and> rest = Line [] # rest' \<longrightarrow>
            os_environ (snd (interactive_model_picker s)) = os_environ s
          \<and> config_store (snd (interactive_model_picker s)) = config_store s)
       \<and> (fst (interactive_model_picker s) = Inr True \<longrightarrow>
            entry_field ''api_key''
              (entry_field ''custom_endpoint''
                 (saved_entry (snd (interactive_model_picker s)) (''custom-'' @ mid)))
              = Some (JStr (CHR ''$'' # env)))"
  (is "?set \<and> ?unset \<and> ?answer \<and> ?blank \<and> ?entry")
proof -
  define k where "k = ''custom-'' @ mid"
  define c where "c = model_config url mid env (context_length_of ctx)"
  define s4 where "s4 = (confirmed_state s r)\<lparr>trace := trace s @ display_trace @
            [Emit_info intro_message, Prompt url_prompt, Prompt model_prompt,
             Prompt env_prompt, Prompt ctx_prompt],
          stdin := rest\<rparr>"
  have picker: "interactive_model_picker s = flow_tail env k c s4"
    using picker_four_lines [OF assms] by (simp add: k_def c_def s4_def)
  have s4: "os_environ s4 = os_environ s" "config_store s4 = config_store s" "stdin s4 = rest"
    "filter is_prompt (trace s4) = filter is_prompt (trace s) @
        [Prompt url_prompt, Prompt model_prompt, Prompt env_prompt, Prompt ctx_prompt]"
    by (simp_all add: s4_def confirmed_state_simps display_trace_def)
  note frame = flow_tail_frame [of env k c s4]
  have ?set
  proof
    assume "\<exists>t. os_environ s env = Some t \<and> t \<noteq> []"
    then have "truthy (os_environ s4 env)"
      by (simp add: truthy_iff s4)
    then have "ask_key_value env s4 = (Inr (), s4)"
      by (rule ask_key_value_set)
    then show "filter is_prompt (trace (snd (interactive_model_picker s))) =
              filter is_prompt (trace s) @
                [Prompt url_prompt, Prompt model_prompt, Prompt env_prompt, Prompt ctx_prompt]
          \<and> stdin (snd (interactive_model_picker s)) = rest
          \<and> os_environ (snd (interactive_model_picker s)) = os_environ s
          \<and> config_store (snd (interactive_model_picker s)) = config_store s"
      using frame s4 by (simp add: picker)
  qed
  moreover have ?unset
  proof
    assume "os_environ s env = None \<or> os_environ s env = Some []"
    then have "\<not> truthy (os_environ s4 env)"
      by (simp add: not_truthy_iff s4)
    then show "filter is_prompt (trace (snd (interactive_model_picker s))) =
              filter is_prompt (trace s) @
                [Prompt url_prompt, Prompt model_prompt, Prompt env_prompt, Prompt ctx_prompt,
                 Prompt (key_prompt env)]"
      using frame s4 ask_key_value_unset_prompts [of s4 env] by (simp add: picker)
  qed
  moreover have ?answer
  proof
    assume h: "(os_environ s env = None \<or> os_environ s env = Some [])
            \<and> rest = Line v # rest' \<and> v \<noteq> [] \<and> putenv_refuses env v = None"
    then have "\<not> truthy (os_environ s4 env)"
      by (simp add: not_truthy_iff s4)
    then show "os_environ (snd (interactive_model_picker s)) = (os_environ s)(env \<mapsto> v)
          \<and> config_store (snd (interactive_model_picker s)) = (config_store s)(env \<mapsto> v)"
      using frame s4 h ask_key_value_answer [of s4 env v rest'] by (simp add: picker)
  qed
  moreover have ?blank
  proof
    assume h: "(os_environ s env = None \<or> os_environ s env = Some [])
            \<and> rest = Line [] # rest'"
    then have "\<not> truthy (os_environ s4 env)"
      by (simp add: not_truthy_iff s4)
    then show "os_environ (snd (interactive_model_picker s)) = os_environ s
          \<and> config_store (snd (interactive_model_picker s)) = config_store s"
      using frame s4 h ask_key_value_blank [of s4 env rest'] by (simp add: picker)
  qed
  moreover have ?entry
  proof
    assume "fst (interactive_model_picker s) = Inr True"
    then have "interactive_model_picker s = (Inr True, snd (interactive_model_picker s))"
      by (metis prod.collapse)
    then have "saved_entry (snd (interactive_model_picker s)) (''custom-'' @ mid) =
           Some (model_config url mid env (context_length_of ctx))"
      using assms(2) by (rule picker_saved_entry)
    then show "entry_field ''api_key''
              (entry_field ''custom_endpoint''
                 (saved_entry (snd (interactive_model_picker s)) (''custom-'' @ mid)))
              = Some (JStr (CHR ''$'' # env))"
      by (simp add: entry_field_def model_config_def dict_get_def)
  qed
  ultimately show ?thesis by blast
qed

text \<open>
  C5 as stated fails for a variable that is set to the empty string: \<open>FOO_KEY\<close> is in the
  environment, and still the flow asks for its value, reads the answer and overwrites it.
\<close>

theorem set_but_empty_variable_is_prompted_for:
  "os_environ
     (example_state Missing None [''FOO_KEY'' \<mapsto> []] [Key_enter]
        [Line ''http://localhost:8000/v1'', Line ''llama-3'', Line ''FOO_KEY'', Line [],
         Line ''sk-2'']) ''FOO_KEY'' = Some []
   \<and> filter is_prompt (trace (snd (interactive_model_picker
        (example_state Missing None [''FOO_KEY'' \<mapsto> []] [Key_enter]
           [Line ''http://localhost:8000/v1'', Line ''llama-3'', Line ''FOO_KEY'', Line [],
            Line ''sk-2'']))))
     = [Prompt url_prompt, Prompt model_prompt, Prompt env_prompt, Prompt ctx_prompt,
        Prompt ''  Enter value for FOO_KEY (will be saved): '']
   \<and> stdin (snd (interactive_model_picker
        (example_state Missing None [''FOO_KEY'' \<mapsto> []] [Key_enter]
           [Line ''http://localhost:8000/v1'', Line ''llama-3'', Line ''FOO_KEY'', Line [],
            Line ''sk-2''])))
     = []
   \<and> os_environ (snd (interactive_model_picker
        (example_state Missing None [''FOO_KEY'' \<mapsto> []] [Key_enter]
           [Line ''http://localhost:8000/v1'', Line ''llama-3'', Line ''FOO_KEY'', Line [],
            Line ''sk-2'']))) ''FOO_KEY''
     = Some ''sk-2''"
  by (simp add: eval_defs text_defs enter_alt_screen_def leave_alt_screen_def clear_screen_def)


theorem key_value_prompt_only_without_value_witness:
  "first_key (key_events
      (typed [Line ''http://localhost:8000/v1'', Line ''llama-3'', Line ''FOO_KEY'', Line []]))
     = [Key_enter]
   \<and> os_environ
      (typed [Line ''http://localhost:8000/v1'', Line ''llama-3'', Line ''FOO_KEY'', Line []])
      ''FOO_KEY'' = Some ''sk-1''
   \<and> filter is_prompt (trace (snd (interactive_model_picker
      (typed [Line ''http://localhost:8000/v1'', Line ''llama-3'', Line ''FOO_KEY'', Line []]))))
     = [Prompt url_prompt, Prompt model_prompt, Prompt env_prompt, Prompt ctx_prompt]
   \<and> os_environ
      (example_state Missing None Map.empty [Key_enter]
         [Line ''http://localhost:8000/v1'', Line ''llama-3'', Line ''FOO_KEY'', Line [],
          Line ''sk-2'']) ''FOO_KEY'' = None
   \<and> filter is_prompt (trace (snd (interactive_model_picker
      (example_state Missing None Map.empty [Key_enter]
         [Line ''http://localhost:8000/v1'', Line ''llama-3'', Line ''FOO_KEY'', Line [],
          Line ''sk-2'']))))
     = [Prompt url_prompt, Prompt model_prompt, Prompt env_prompt, Prompt ctx_prompt,
        Prompt (key_prompt ''FOO_KEY'')]
   \<and> os_environ (snd (interactive_model_picker
      (example_state Missing None Map.empty [Key_enter]
         [Line ''http://localhost:8000/v1'', Line ''llama-3'', Line ''FOO_KEY'', Line [],
          Line ''sk-2'']))) ''FOO_KEY'' = Some ''sk-2''
   \<and> config_store (snd (interactive_model_picker
      (example_state Missing None Map.empty [Key_enter]
         [Line ''http://localhost:8000/v1'', Line ''llama-3'', Line ''FOO_KEY'', Line [],
          Line ''sk-2'']))) ''FOO_KEY'' = Some ''sk-2''
   \<and> os_environ (snd (interactive_model_picker
      (example_state Missing None Map.empty [Key_enter]
         [Line ''http://localhost:8000/v1'', Line ''llama-3'', Line ''FOO_KEY'', Line [],
          Line []]))) ''FOO_KEY'' = None"
  using key_value_prompt_only_without_value
      [of "typed [Line ''http://localhost:8000/v1'', Line ''llama-3'', Line ''FOO_KEY'', Line []]"
          "[]" "''http://localhost:8000/v1''" "''llama-3''" "''FOO_KEY''" "[]" "[]"]
    key_value_prompt_only_without_value
      [of "example_state Missing None Map.empty [Key_enter]
         [Line ''http://localhost:8000/v1'', Line ''llama-3'', Line ''FOO_KEY'', Line [],
          Line ''sk-2'']"
          "[]" "''http://localhost:8000/v1''" "''llama-3''" "''FOO_KEY''" "[]" "[Line ''sk-2'']"
          "''sk-2''" "[]"]
    key_value_prompt_only_without_value
      [of "example_state Missing None Map.empty [Key_enter]
         [Line ''http://localhost:8000/v1'', Line ''llama-3'', Line ''FOO_KEY'', Line [],
          Line []]"
          "[]" "''http://localhost:8000/v1''" "''llama-3''" "''FOO_KEY''" "[]" "[Line []]"
          "[]" "[]"]
  by (simp add: typed_def example_state_def first_key_def putenv_refuses_def)

text \<open>
  A name or a value that \<^verbatim>\<open>putenv\<close> refuses, such as a name with an equals sign: the
  value is in the configuration store already when \<^verbatim>\<open>os.environ\<close> raises; neither handler
  of \<^verbatim>\<open>_prompt_custom_flow\<close> catches the exception, the environment is as before and nothing
  is written.
\<close>

lemma refused_name_raises:
  assumes "first_key (key_events s) = Key_enter # r"
    and "stdin s = Line url # Line mid # Line env # Line ctx # Line v # rest"
    and "url \<noteq> []" and "mid \<noteq> []" and "env \<noteq> []" and "v \<noteq> []"
    and "os_environ s env = None \<or> os_environ s env = Some []"
    and "putenv_refuses env v = Some e"
  shows "fst (interactive_model_picker s) = Inl e
       \<and> os_environ (snd (interactive_model_picker s)) = os_environ s
       \<and> config_store (snd (interactive_model_picker s)) = (config_store s)(env \<mapsto> v)
       \<and> extra_models_file (snd (interactive_model_picker s)) = extra_models_file s
       \<and> filter is_write (trace (snd (interactive_model_picker s))) = filter is_write (trace s)"
proof -
  define k where "k = ''custom-'' @ mid"
  define c where "c = model_config url mid env (context_length_of ctx)"
  define s4 where "s4 = (confirmed_state s r)\<lparr>trace := trace s @ display_trace @
            [Emit_info intro_message, Prompt url_prompt, Prompt model_prompt,
             Prompt env_prompt, Prompt ctx_prompt],
          stdin := Line v # rest\<rparr>"
  have picker: "interactive_model_picker s = flow_tail env k c s4"
    using picker_four_lines [OF assms(1,2,3,4,5)] by (simp add: k_def c_def s4_def)
  have unset: "\<not> truthy (os_environ s4 env)"
    using assms(7) by (simp add: not_truthy_iff s4_def confirmed_state_simps)
  have in4: "stdin s4 = Line v # rest"
    by (simp add: s4_def)
  have ask: "ask_key_value env s4 =
      (Inl e, s4\<lparr>config_store := (config_store s4)(env \<mapsto> v), stdin := rest,
               trace := trace s4 @ [Prompt (key_prompt env), Set_config_value env v,
                                   Environ_setitem env v]\<rparr>)"
    using ask_key_value_refused [OF unset in4 assms(6,8)] .
  show ?thesis
    unfolding picker
    using flow_tail_refused [OF ask, of k c] putenv_refuses_exc [OF assms(8)]
    by (simp add: s4_def confirmed_state_simps display_trace_def)
qed

lemma equals_sign_refused: "putenv_refuses ''A=B'' ''sk-2'' = Some ValueError"
  by (simp add: putenv_refuses_def)

lemma start_dict_None:
  assumes "start_dict f = None"
  obtains j where "f = Holds j" and "\<forall>d. j \<noteq> JDict d"
  using assms by (auto simp add: start_dict_def split: file_state.splits json.splits)

text \<open>
  C10. After a value at the fifth prompt, the configuration store holds it. Whenever the
  flow goes on to write the file, the environment holds it too, and in the trace the two
  calls that stored it come before the first call of the writing, the making of the
  directories. When the file system fails, the flow does not return true but ends with an
  exception, \<^verbatim>\<open>OSError\<close> when the writing was attempted, and the value stays where it was
  stored. The writing is attempted whenever \<^verbatim>\<open>putenv\<close> accepts the name and the value and
  the file gives a mapping to start from.
\<close>

theorem secret_kept_when_write_fails:
  assumes "first_key (key_events s) = Key_enter # r"
    and "stdin s = Line url # Line mid # Line env # Line ctx # Line v # rest"
    and "url \<noteq> []" and "mid \<noteq> []" and "env \<noteq> []" and "v \<noteq> []"
    and "os_environ s env = None \<or> os_environ s env = Some []"
  shows "config_store (snd (interactive_model_picker s)) = (config_store s)(env \<mapsto> v)
       \<and> (filter is_write (trace (snd (interactive_model_picker s))) \<noteq> filter is_write (trace s)
            \<longrightarrow>
            os_environ (snd (interactive_model_picker s)) = (os_environ s)(env \<mapsto> v)
          \<and> (\<exists>tr. trace (snd (interactive_model_picker s)) =
                 trace s @ display_trace @
                 [Emit_info intro_message, Prompt url_prompt, Prompt model_prompt,
                  Prompt env_prompt, Prompt ctx_prompt, Prompt (key_prompt env),
                  Set_config_value env v, Environ_setitem env v] @ Mkdir_parents # tr))
       \<and> (fs_fault s = Some f \<longrightarrow>
            fst (interactive_model_picker s) \<noteq> Inr True
          \<and> (\<exists>e. fst (interactive_model_picker s) = Inl e))
       \<and> (fs_fault s = Some f
            \<and> filter is_write (trace (snd (interactive_model_picker s))) \<noteq> filter is_write (trace s)
            \<longrightarrow>
            fst (interactive_model_picker s) = Inl OSError
          \<and> extra_models_file (snd (interactive_model_picker s)) =
              (if f = Dump_fails then Unparsable else extra_models_file s))
       \<and> (putenv_refuses env v = None \<and> start_dict (extra_models_file s) = Some d \<longrightarrow>
            filter is_write (trace (snd (interactive_model_picker s))) \<noteq> filter is_write (trace s))"
proof -
  define k where "k = ''custom-'' @ mid"
  define c where "c = model_config url mid env (context_length_of ctx)"
  define s4 where "s4 = (confirmed_state s r)\<lparr>trace := trace s @ display_trace @
            [Emit_info intro_message, Prompt url_prompt, Prompt model_prompt,
             Prompt env_prompt, Prompt ctx_prompt],
          stdin := Line v # rest\<rparr>"
  have picker: "interactive_model_picker s = flow_tail env k c s4"
    using picker_four_lines [OF assms(1,2,3,4,5)] by (simp add: k_def c_def s4_def)
  have unset: "\<not> truthy (os_environ s4 env)"
    using assms(7) by (simp add: not_truthy_iff s4_def confirmed_state_simps)
  have in4: "stdin s4 = Line v # rest"
    by (simp add: s4_def)
  have w4: "filter is_write (trace s4) = filter is_write (trace s)"
    by (simp add: s4_def display_trace_def)
  show ?thesis
  proof (cases "putenv_refuses env v")
    case (Some e)
    have ask: "ask_key_value env s4 =
      (Inl e, s4\<lparr>config_store := (config_store s4)(env \<mapsto> v), stdin := rest,
               trace := trace s4 @ [Prompt (key_prompt env), Set_config_value env v,
                                   Environ_setitem env v]\<rparr>)"
      using ask_key_value_refused [OF unset in4 assms(6) Some] .
    have "interactive_model_picker s =
      (Inl e, s4\<lparr>config_store := (config_store s4)(env \<mapsto> v), stdin := rest,
               trace := trace s4 @ [Prompt (key_prompt env), Set_config_value env v,
                                   Environ_setitem env v]\<rparr>)"
      unfolding picker
      using flow_tail_refused [OF ask, of k c] putenv_refuses_exc [OF Some] by simp
    then show ?thesis
      using Some w4 by (simp add: s4_def confirmed_state_simps)
  next
    case None
    define s5 where "s5 = s4\<lparr>os_environ := (os_environ s4)(env \<mapsto> v),
              config_store := (config_store s4)(env \<mapsto> v),
              stdin := rest,
              trace := trace s4 @ [Prompt (key_prompt env), Set_config_value env v,
                                  Environ_setitem env v]\<rparr>"
    have ask: "ask_key_value env s4 = (Inr (), s5)"
      using ask_key_value_answer [OF unset in4 assms(6) None] by (simp add: s5_def)
    have tail: "interactive_model_picker s =
      (case save_config k c s5 of (Inl e, s2) \<Rightarrow> (Inl e, s2) | (Inr _, s2) \<Rightarrow> (Inr True, s2))"
      unfolding picker using flow_tail_saves [OF ask, of k c] .
    have s5: "os_environ s5 = (os_environ s)(env \<mapsto> v)"
      "config_store s5 = (config_store s)(env \<mapsto> v)"
      "extra_models_file s5 = extra_models_file s" "fs_fault s5 = fs_fault s"
      "trace s5 = trace s @ display_trace @
                 [Emit_info intro_message, Prompt url_prompt, Prompt model_prompt,
                  Prompt env_prompt, Prompt ctx_prompt, Prompt (key_prompt env),
                  Set_config_value env v, Environ_setitem env v]"
      "filter is_write (trace s5) = filter is_write (trace s)"
      by (simp_all add: s5_def s4_def confirmed_state_simps display_trace_def)
    show ?thesis
    proof (cases "start_dict (extra_models_file s)")
      case nd: None
      then obtain j where "extra_models_file s5 = Holds j" and "\<forall>d. j \<noteq> JDict d"
        using s5(3) by (auto elim: start_dict_None)
      then have "save_config k c s5 = (Inl TypeError, s5)"
        by (rule save_config_not_a_mapping)
      then have "interactive_model_picker s = (Inl TypeError, s5)"
        using tail by simp
      then show ?thesis
        using s5 nd by simp
    next
      case (Some d0)
      show ?thesis
      proof (cases "fs_fault s")
        case nf: None
        have "save_config k c s5 =
          (Inr (), s5\<lparr>extra_models_file := Holds (JDict (dict_setitem d0 k c)),
                    trace := trace s5 @ save_trace (JDict (dict_setitem d0 k c)) k\<rparr>)"
          using Some nf s5(3,4) by (simp add: save_config_ok)
        then have "interactive_model_picker s =
          (Inr True, s5\<lparr>extra_models_file := Holds (JDict (dict_setitem d0 k c)),
                    trace := trace s5 @ save_trace (JDict (dict_setitem d0 k c)) k\<rparr>)"
          using tail by simp
        then show ?thesis
          using s5 nf by (simp add: save_trace_def)
      next
        case (Some f0)
        have "save_config k c s5 =
          (Inl OSError,
           s5\<lparr>extra_models_file := (if f0 = Dump_fails then Unparsable else extra_models_file s5),
             trace := trace s5 @
               (case f0 of
                  Mkdir_fails \<Rightarrow> [Mkdir_parents]
                | Open_fails \<Rightarrow> [Mkdir_parents, Open_write]
                | Dump_fails \<Rightarrow> [Mkdir_parents, Open_write,
                                  Json_dump (JDict (dict_setitem d0 k c)) 4])\<rparr>)"
          using \<open>start_dict (extra_models_file s) = Some d0\<close> Some s5(3,4)
          by (simp add: save_config_fails)
        then have "interactive_model_picker s =
          (Inl OSError,
           s5\<lparr>extra_models_file := (if f0 = Dump_fails then Unparsable else extra_models_file s5),
             trace := trace s5 @
               (case f0 of
                  Mkdir_fails \<Rightarrow> [Mkdir_parents]
                | Open_fails \<Rightarrow> [Mkdir_parents, Open_write]
                | Dump_fails \<Rightarrow> [Mkdir_parents, Open_write,
                                  Json_dump (JDict (dict_setitem d0 k c)) 4])\<rparr>)"
          using tail by simp
        then show ?thesis
          using s5 Some by (cases f0) simp_all
      qed
    qed
  qed
qed


theorem secret_kept_when_write_fails_witness:
  "first_key (key_events
      (example_state Missing (Some Open_fails) Map.empty [Key_enter]
         [Line ''http://localhost:8000/v1'', Line ''llama-3'', Line ''FOO_KEY'', Line [],
          Line ''sk-2''])) = [Key_enter]
   \<and> putenv_refuses ''FOO_KEY'' ''sk-2'' = None
   \<and> start_dict (extra_models_file
      (example_state Missing (Some Open_fails) Map.empty [Key_enter]
         [Line ''http://localhost:8000/v1'', Line ''llama-3'', Line ''FOO_KEY'', Line [],
          Line ''sk-2''])) = Some []
   \<and> filter is_write (trace (snd (interactive_model_picker
      (example_state Missing (Some Open_fails) Map.empty [Key_enter]
         [Line ''http://localhost:8000/v1'', Line ''llama-3'', Line ''FOO_KEY'', Line [],
          Line ''sk-2''])))) = [Mkdir_parents, Open_write]
   \<and> fst (interactive_model_picker
      (example_state Missing (Some Open_fails) Map.empty [Key_enter]
         [Line ''http://localhost:8000/v1'', Line ''llama-3'', Line ''FOO_KEY'', Line [],
          Line ''sk-2''])) = Inl OSError
   \<and> os_environ (snd (interactive_model_picker
      (example_state Missing (Some Open_fails) Map.empty [Key_enter]
         [Line ''http://localhost:8000/v1'', Line ''llama-3'', Line ''FOO_KEY'', Line [],
          Line ''sk-2'']))) ''FOO_KEY'' = Some ''sk-2''
   \<and> config_store (snd (interactive_model_picker
      (example_state Missing (Some Open_fails) Map.empty [Key_enter]
         [Line ''http://localhost:8000/v1'', Line ''llama-3'', Line ''FOO_KEY'', Line [],
          Line ''sk-2'']))) ''FOO_KEY'' = Some ''sk-2''
   \<and> extra_models_file (snd (interactive_model_picker
      (example_state Missing (Some Open_fails) Map.empty [Key_enter]
         [Line ''http://localhost:8000/v1'', Line ''llama-3'', Line ''FOO_KEY'', Line [],
          Line ''sk-2'']))) = Missing"
proof -
  define X where "X = example_state Missing (Some Open_fails) Map.empty [Key_enter]
         [Line ''http://localhost:8000/v1'', Line ''llama-3'', Line ''FOO_KEY'', Line [],
          Line ''sk-2'']"
  have hyps: "first_key (key_events X) = Key_enter # []"
    "stdin X = Line ''http://localhost:8000/v1'' # Line ''llama-3'' # Line ''FOO_KEY'' # Line []
               # Line ''sk-2'' # []"
    "os_environ X ''FOO_KEY'' = None \<or> os_environ X ''FOO_KEY'' = Some []"
    "fs_fault X = Some Open_fails" "start_dict (extra_models_file X) = Some []"
    "putenv_refuses ''FOO_KEY'' ''sk-2'' = None" "extra_models_file X = Missing"
    "os_environ X = Map.empty" "config_store X = Map.empty"
    by (simp_all add: X_def example_state_def first_key_def start_dict_def putenv_refuses_def)
  have writes: "filter is_write (trace (snd (interactive_model_picker X))) =
                  [Mkdir_parents, Open_write]"
    by (simp add: X_def eval_defs)
  note inst = secret_kept_when_write_fails
      [of X "[]" "''http://localhost:8000/v1''" "''llama-3''" "''FOO_KEY''" "[]" "''sk-2''" "[]"
          Open_fails "[]", OF hyps(1,2)]
  have "fst (interactive_model_picker X) = Inl OSError
      \<and> os_environ (snd (interactive_model_picker X)) ''FOO_KEY'' = Some ''sk-2''
      \<and> config_store (snd (interactive_model_picker X)) ''FOO_KEY'' = Some ''sk-2''
      \<and> extra_models_file (snd (interactive_model_picker X)) = Missing"
    using inst hyps by simp
  then show ?thesis
    using hyps writes by (simp add: X_def)
qed

subsection \<open>The display phase\<close>

lemma quietI:
  assumes "\<And>s. \<exists>tr. trace (snd (m s)) = trace s @ tr \<and> filter terminal_event tr = []"
  shows "quiet m"
  using assms by (simp add: quiet_def)

lemma quietD:
  assumes "quiet m"
  obtains tr where "trace (snd (m s)) = trace s @ tr" and "filter terminal_event tr = []"
  using assms by (auto simp add: quiet_def)

lemma quiet_return: "quiet (return v)"
  by (simp add: quiet_def return_def)

lemma quiet_raise: "quiet (raise e)"
  by (simp add: quiet_def raise_def)

lemma quiet_bind:
  assumes "quiet m" and "\<And>v. quiet (f v)"
  shows "quiet (bind m f)"
proof (rule quietI)
  fix s
  obtain x s1 where ms: "m s = (x, s1)" by (cases "m s")
  from assms(1) obtain tr where tr: "trace (snd (m s)) = trace s @ tr" "filter terminal_event tr = []"
    by (rule quietD)
  show "\<exists>tr. trace (snd (bind m f s)) = trace s @ tr \<and> filter terminal_event tr = []"
  proof (cases x)
    case (Inl e)
    with ms tr show ?thesis by (simp add: bind_def)
  next
    case (Inr v)
    from assms(2) [of v] obtain tr2 where
      "trace (snd (f v s1)) = trace s1 @ tr2" "filter terminal_event tr2 = []"
      by (rule quietD)
    with Inr ms tr have "trace (snd (bind m f s)) = trace s @ (tr @ tr2) \<and>
        filter terminal_event (tr @ tr2) = []"
      by (simp add: bind_def)
    then show ?thesis by blast
  qed
qed

lemma quiet_seq: "quiet m \<Longrightarrow> quiet n \<Longrightarrow> quiet (seq m n)"
  by (simp add: seq_def quiet_bind)

lemma quiet_if: "quiet a \<Longrightarrow> quiet b \<Longrightarrow> quiet (if c then a else b)"
  by simp

lemma quiet_try_except:
  assumes "quiet body" and "quiet handler"
  shows "quiet (try_except body handled handler)"
proof (rule quietI)
  fix s
  obtain x s1 where ms: "body s = (x, s1)" by (cases "body s")
  from assms(1) obtain tr where tr: "trace (snd (body s)) = trace s @ tr" "filter terminal_event tr = []"
    by (rule quietD)
  from assms(2) obtain tr2 where
      tr2: "trace (snd (handler s1)) = trace s1 @ tr2" "filter terminal_event tr2 = []"
    by (rule quietD)
  show "\<exists>tr. trace (snd (try_except body handled handler s)) = trace s @ tr
          \<and> filter terminal_event tr = []"
  proof (cases x)
    case (Inr v)
    with ms tr show ?thesis by (simp add: try_except_def)
  next
    case (Inl e)
    show ?thesis
    proof (cases "handled e")
      case False
      with Inl ms tr show ?thesis by (simp add: try_except_def)
    next
      case True
      with Inl ms tr tr2 have "trace (snd (try_except body handled handler s)) = trace s @ (tr @ tr2)
          \<and> filter terminal_event (tr @ tr2) = []"
        by (simp add: try_except_def)
      then show ?thesis by blast
    qed
  qed
qed

lemma quiet_log: "\<not> terminal_event e \<Longrightarrow> quiet (log e)"
  by (simp add: quiet_def log_def)

lemma quiet_safe_input: "quiet (safe_input p)"
  by (rule quietI) (simp add: safe_input_def Let_def split: list.splits answer.splits)

lemma quiet_ask_key_value: "quiet (ask_key_value env)"
  unfolding ask_key_value_def
  by (intro quiet_bind quiet_if quiet_seq quiet_return quiet_safe_input)
     (simp_all add: quiet_def environ_get_def set_config_value_def environ_setitem_def Let_def
        split: option.splits)

lemma quiet_save_config: "quiet (save_config k c)"
  unfolding save_config_def
  by (intro quiet_bind quiet_if quiet_seq quiet_return quiet_try_except)
     (simp_all add: quiet_def path_exists_def open_read_json_load_def py_setitem_def return_def
        raise_def mkdir_parents_def open_write_json_dump_def emit_info_def log_def Let_def
        split: file_state.splits json.splits)

lemma quiet_prompt_custom_flow: "quiet prompt_custom_flow"
  unfolding prompt_custom_flow_def
  by (intro quiet_try_except quiet_bind quiet_if quiet_seq quiet_return quiet_safe_input
        quiet_ask_key_value quiet_save_config)
     (simp_all add: emit_info_def emit_warning_def quiet_log)

lemma count_quiet:
  assumes "filter terminal_event tr = []" and "terminal_event e"
  shows "count_list tr e = 0"
proof -
  have "e \<notin> set tr"
  proof
    assume "e \<in> set tr"
    with assms(2) have "e \<in> set (filter terminal_event tr)" by simp
    with assms(1) show False by simp
  qed
  then show ?thesis by (simp add: count_list_0_iff)
qed

lemma run_trace:
  obtains tr where "trace (snd (run s)) = trace s @ display_trace @ tr"
    and "filter terminal_event tr = []"
proof (cases s rule: run_structure)
  case (raised e s3)
  then show ?thesis using that [of "[]"] by simp
next
  case (declined s3)
  then show ?thesis using that [of "[]"] by simp
next
  case (confirmed s3)
  from quiet_prompt_custom_flow obtain tr where
    "trace (snd (prompt_custom_flow s3)) = trace s3 @ tr" "filter terminal_event tr = []"
    by (rule quietD)
  with confirmed show ?thesis using that [of tr] by simp
qed

lemma run_closed:
  assumes "first_key (key_events s) = []"
  shows "\<exists>e. fst (run s) = Inl e"
proof -
  define s1 where "s1 = s\<lparr>self := (self s)\<lparr>menu_control := [], preview_control := []\<rparr>,
      trace := trace s @ [Set_awaiting_user_input True, Stdout_write enter_alt_screen,
                          Stdout_write clear_screen, Stdout_flush]\<rparr>"
  have "\<exists>e s2. seq update_display app_run s1 = (Inl e, s2)"
  proof (cases "update_display s1")
    case (Pair x s2)
    show ?thesis
    proof (cases x)
      case (Inl e)
      with Pair show ?thesis by (simp add: seq_def bind_def)
    next
      case (Inr u)
      with Pair have "key_events s2 = key_events s"
        by (auto simp add: update_display_def s1_def split: sum.splits)
      with Pair Inr assms show ?thesis
        by (simp add: seq_def bind_def app_run_def app_run_keys_closed)
    qed
  qed
  then obtain e s2 where "seq update_display app_run s1 = (Inl e, s2)" by blast
  then have "fst (run s) = Inl e"
    by (simp add: run_def seq_def bind_def try_finally_def make_controls_def log_def
          set_awaiting_user_input_def stdout_write_def stdout_flush_def s1_def)
  then show ?thesis by blast
qed

text \<open>
  C8. However \<^verbatim>\<open>run\<close> is entered and however its display phase ends, by Enter, by Ctrl-C
  or by an exception, its trace continues with the seven terminal calls in order, the last
  three being the cleanup of the \<^verbatim>\<open>finally\<close> block, and nothing after them touches the
  terminal: leaving the alternate screen and clearing the awaiting-input signal happen
  once each, as entering and setting did. An input that closes before a bound key ends
  \<^verbatim>\<open>run\<close> with an exception, and the cleanup has run.
\<close>

theorem screen_restored_exactly_once:
  "(\<exists>tr. trace (snd (run s)) =
            trace s @
            [Set_awaiting_user_input True, Stdout_write enter_alt_screen,
             Stdout_write clear_screen, Stdout_flush,
             Stdout_write leave_alt_screen, Stdout_flush, Set_awaiting_user_input False] @ tr
          \<and> filter terminal_event tr = [])
   \<and> count_list (trace (snd (run s))) (Stdout_write leave_alt_screen) =
       count_list (trace s) (Stdout_write leave_alt_screen) + 1
   \<and> count_list (trace (snd (run s))) (Set_awaiting_user_input False) =
       count_list (trace s) (Set_awaiting_user_input False) + 1
   \<and> count_list (trace (snd (run s))) (Stdout_write enter_alt_screen) =
       count_list (trace s) (Stdout_write enter_alt_screen) + 1
   \<and> count_list (trace (snd (run s))) (Set_awaiting_user_input True) =
       count_list (trace s) (Set_awaiting_user_input True) + 1
   \<and> (first_key (key_events s) = [] \<longrightarrow> (\<exists>e. fst (run s) = Inl e))"
proof -
  obtain tr where tr: "trace (snd (run s)) = trace s @ display_trace @ tr"
    "filter terminal_event tr = []"
    by (rule run_trace)
  have c: "count_list tr (Stdout_write leave_alt_screen) = 0"
    "count_list tr (Set_awaiting_user_input False) = 0"
    "count_list tr (Stdout_write enter_alt_screen) = 0"
    "count_list tr (Set_awaiting_user_input True) = 0"
    using tr(2) by (simp_all add: count_quiet)
  have ne: "enter_alt_screen \<noteq> leave_alt_screen" "enter_alt_screen \<noteq> clear_screen"
    "leave_alt_screen \<noteq> clear_screen"
    by (simp_all add: enter_alt_screen_def leave_alt_screen_def clear_screen_def)
  show ?thesis
    using tr c ne run_closed [of s] by (simp add: display_trace_def) 
qed

theorem screen_restored_exactly_once_witness:
  "first_key (key_events (example_state Missing None Map.empty [Key_other] [])) = []
   \<and> fst (run (example_state Missing None Map.empty [Key_other] [])) = Inl EOFError
   \<and> trace (snd (run (example_state Missing None Map.empty [Key_other] []))) = display_trace
   \<and> count_list (trace (snd (run (example_state Missing None Map.empty [Key_other] []))))
        (Stdout_write leave_alt_screen) = 1
   \<and> count_list (trace (snd (run (example_state Missing None Map.empty [Key_other] []))))
        (Set_awaiting_user_input False) = 1"
  using screen_restored_exactly_once [of "example_state Missing None Map.empty [Key_other] []"]
  by (simp add: eval_defs display_trace_def)

end
